theory Spec2Isabelle
  imports Complex_Main "HOL-Library.Char_ord" "HOL-Library.List_Lexorder" "HOL-Library.AList"
begin

section \<open>Data model of \<open>analyst-tools.py\<close>\<close>

text \<open>
  The tools read \<open>dataset.csv\<close> into a pandas data frame on every call. The frame is a
  parameter of every operation below. Its columns \<open>CustomerName\<close>, \<open>ProjectName\<close>,
  \<open>Revenue\<close> and \<open>COGS\<close> are always there; \<open>has_OPEX\<close> says whether the frame has the
  column \<open>OPEX\<close> (the test \<open>'OPEX' in df.columns\<close>), and the field \<open>OPEX\<close> of a row
  is read only where the source reads that column.

  Numbers are rationals, and the operations on them are exact in the definitions of
  \<open>get_data\<close> and \<open>compare_performance\<close>; the last section of definitions gives
  \<open>get_data\<close> with the arithmetic of the columns (rounding in \<open>float64\<close>) as a
  parameter. A pandas division never raises; where the divisor is zero it gives an
  infinity or NaN, which the type \<open>number\<close> records.
\<close>

record row =
  CustomerName :: string
  ProjectName :: string
  Revenue :: rat
  COGS :: rat
  OPEX :: rat

record dataframe =
  has_OPEX :: bool
  rows :: "row list"

datatype number = Finite rat | PosInf | NegInf | NaN

datatype error = ValueError string | KeyError string | TypeError

text \<open>The score of a query against one choice, from 0 to 100 and not yet rounded: the
  scorer of the library (\<open>thefuzz\<close>, which computes with \<open>rapidfuzz\<close>) is outside the
  repository and is a parameter.\<close>

type_synonym scorer = "string \<Rightarrow> string \<Rightarrow> rat"

text \<open>A metric's \<open>{'value': v, 'percentage': p}\<close> is the pair \<open>(v, p)\<close>; a dict is an
  association list in insertion order.\<close>

type_synonym metric_entry = "rat \<times> rat"

type_synonym metric_dict = "(string \<times> metric_entry) list"

record summary =
  s_name :: string
  s_revenue :: rat
  s_metrics :: metric_dict

section \<open>Strings, series and fuzzy matching\<close>

text \<open>\<open>str.lower\<close> on ASCII text.\<close>

definition char_lower :: "char \<Rightarrow> char" where
  "char_lower c =
     (let n = (of_char c :: nat) in if 65 \<le> n \<and> n \<le> 90 then char_of (n + 32) else c)"

definition lower :: "string \<Rightarrow> string" where
  "lower s = map char_lower s"

text \<open>\<open>Series.unique()\<close>: the distinct values in order of first appearance.\<close>

fun unique :: "'a list \<Rightarrow> 'a list" where
  "unique [] = []"
| "unique (x # xs) = x # unique (filter (\<lambda>y. y \<noteq> x) xs)"

text \<open>Python's \<open>round\<close> to an integer: the nearest one, and the even one at a tie.\<close>

definition py_round :: "rat \<Rightarrow> int" where
  "py_round x =
     (let f = \<lfloor>x\<rfloor>; d = x - of_int f
      in if d < 1 / 2 then f
         else if d > 1 / 2 then f + 1
         else if even f then f else f + 1)"

text \<open>The best of the scored choices: a choice replaces the best one so far only when its
  score is strictly higher, so that the first choice of the highest score is kept.\<close>

fun best_of :: "string \<times> rat \<Rightarrow> (string \<times> rat) list \<Rightarrow> string \<times> rat" where
  "best_of b [] = b"
| "best_of b (c # cs) = best_of (if snd c > snd b then c else b) cs"

text \<open>\<open>process.extractOne(query, choices)\<close>: every choice is scored, the best choice is
  selected on the scores as the scorer gives them, its score is then rounded
  (\<open>int(round(score))\<close>), and the result is \<open>None\<close> when there is no choice.\<close>

definition extractOne :: "scorer \<Rightarrow> string \<Rightarrow> string list \<Rightarrow> (string \<times> int) option" where
  "extractOne sc query choices =
     (case map (\<lambda>c. (c, sc query c)) choices of
        [] \<Rightarrow> None
      | b # bs \<Rightarrow>
          (case best_of b bs of (choice, score) \<Rightarrow> Some (choice, py_round score)))"

text \<open>Division of a pandas series by a series, at one position.\<close>

definition float_div :: "rat \<Rightarrow> rat \<Rightarrow> number" where
  "float_div a b =
     (if b \<noteq> 0 then Finite (a / b)
      else if a > 0 then PosInf
      else if a < 0 then NegInf
      else NaN)"

section \<open>Error messages\<close>

definition sq :: string where
  "sq = [CHR 0x27]"

definition no_close_match :: "string \<Rightarrow> string \<Rightarrow> string \<Rightarrow> string" where
  "no_close_match kind query cand =
     ''No close match found for '' @ kind @ '' '' @ sq @ query @ sq @
     ''. Did you mean '' @ sq @ cand @ sq @ ''?''"

definition unknown_metric_get_data :: "string \<Rightarrow> string" where
  "unknown_metric_get_data metric =
     ''Unknown metric: '' @ metric @ ''. Available metrics are '' @
     sq @ ''gross_margin'' @ sq @ '', '' @ sq @ ''revenue'' @ sq @ '', '' @
     sq @ ''ebitda'' @ sq @ ''.''"

definition valid_metrics :: "string list" where
  "valid_metrics = [''revenue'', ''gross_margin'', ''ebitda'']"

definition unknown_metric_compare :: "string \<Rightarrow> string" where
  "unknown_metric_compare metric =
     ''Unknown metric: '' @ metric @ ''. Available metrics are '' @
     ''revenue, gross_margin, ebitda''"

definition invalid_entity_type :: string where
  "invalid_entity_type =
     ''entity_type must be either '' @ sq @ ''customer'' @ sq @ '' or '' @
     sq @ ''project'' @ sq"

section \<open>\<open>get_data\<close>\<close>

text \<open>\<open>if customer:\<close> is false for \<open>None\<close> and for the empty string.\<close>

definition truthy :: "string option \<Rightarrow> bool" where
  "truthy s = (case s of None \<Rightarrow> False | Some q \<Rightarrow> q \<noteq> [])"

text \<open>Lines 23 to 31: the customer filter. It returns the variable \<open>customer\<close> and the
  frame as they are after the block. \<open>best_match[1]\<close> on \<open>None\<close> is a TypeError.\<close>

definition filter_customer ::
  "scorer \<Rightarrow> dataframe \<Rightarrow> string option \<Rightarrow> error + (string option \<times> dataframe)" where
  "filter_customer sc df customer =
     (case customer of
        None \<Rightarrow> Inr (customer, df)
      | Some q \<Rightarrow>
          if q = [] then Inr (customer, df)
          else
            (case extractOne sc q (unique (map CustomerName (rows df))) of
               None \<Rightarrow> Inl TypeError
             | Some (name, score) \<Rightarrow>
                 if score > 80
                 then Inr (Some name,
                        df\<lparr>rows := filter (\<lambda>r. CustomerName r = name) (rows df)\<rparr>)
                 else Inl (ValueError (no_close_match ''customer'' q name))))"

text \<open>Lines 33 to 41: the project filter, on the frame the customer filter left.\<close>

definition filter_project ::
  "scorer \<Rightarrow> dataframe \<Rightarrow> string option \<Rightarrow> error + (string option \<times> dataframe)" where
  "filter_project sc df project =
     (case project of
        None \<Rightarrow> Inr (project, df)
      | Some q \<Rightarrow>
          if q = [] then Inr (project, df)
          else
            (case extractOne sc q (unique (map ProjectName (rows df))) of
               None \<Rightarrow> Inl TypeError
             | Some (name, score) \<Rightarrow>
                 if score > 80
                 then Inr (Some name,
                        df\<lparr>rows := filter (\<lambda>r. ProjectName r = name) (rows df)\<rparr>)
                 else Inl (ValueError (no_close_match ''project'' q name))))"

text \<open>Lines 47 to 71: the overall metric, on the sums of the columns.\<close>

definition overall_metric :: "string \<Rightarrow> dataframe \<Rightarrow> error + (rat list \<times> number list)" where
  "overall_metric metric df =
     (let total_revenue = sum_list (map Revenue (rows df));
          total_cogs = sum_list (map COGS (rows df))
      in
        if metric = ''gross_margin'' then
          (let overall_value = total_revenue - total_cogs;
               overall_percentage =
                 (if total_revenue > 0 then overall_value / total_revenue else 0)
           in Inr ([overall_value], [Finite overall_percentage]))
        else if metric = ''revenue'' then
          Inr ([total_revenue], [Finite 1])
        else if metric = ''ebitda'' then
          (if \<not> has_OPEX df then Inl (KeyError ''OPEX'')
           else
             (let total_opex = sum_list (map OPEX (rows df));
                  overall_value = total_revenue - total_cogs - total_opex;
                  overall_percentage =
                    (if total_revenue > 0 then overall_value / total_revenue else 0)
              in Inr ([overall_value], [Finite overall_percentage])))
        else Inl (ValueError (unknown_metric_get_data metric)))"

text \<open>Lines 73 to 89: the metric of every row of the narrowed frame.\<close>

definition row_metric :: "string \<Rightarrow> dataframe \<Rightarrow> error + (rat list \<times> number list)" where
  "row_metric metric df =
     (if metric = ''gross_margin'' then
        (let result_value = map (\<lambda>r. Revenue r - COGS r) (rows df)
         in Inr (result_value, map2 float_div result_value (map Revenue (rows df))))
      else if metric = ''revenue'' then
        Inr (map Revenue (rows df), replicate (length (rows df)) (Finite 1))
      else if metric = ''ebitda'' then
        (if \<not> has_OPEX df then Inl (KeyError ''OPEX'')
         else
           (let result_value = map (\<lambda>r. Revenue r - COGS r - OPEX r) (rows df)
            in Inr (result_value, map2 float_div result_value (map Revenue (rows df)))))
      else Inl (ValueError (unknown_metric_get_data metric)))"

definition get_data ::
  "scorer \<Rightarrow> dataframe \<Rightarrow> string \<Rightarrow> string option \<Rightarrow> string option \<Rightarrow>
   error + (rat list \<times> number list)" where
  "get_data sc df0 metric0 customer0 project0 =
     (case filter_customer sc df0 customer0 of
        Inl e \<Rightarrow> Inl e
      | Inr (customer, df1) \<Rightarrow>
          (case filter_project sc df1 project0 of
             Inl e \<Rightarrow> Inl e
           | Inr (project, df) \<Rightarrow>
               (let metric = lower metric0
                in if \<not> truthy customer \<and> \<not> truthy project
                   then overall_metric metric df
                   else row_metric metric df)))"

section \<open>\<open>compare_performance\<close>\<close>

text \<open>Lines 118 to 122: the first name whose lower-case form is no valid metric raises.\<close>

fun validate_metrics :: "string list \<Rightarrow> error option" where
  "validate_metrics [] = None"
| "validate_metrics (metric # ms) =
     (if lower metric \<notin> set valid_metrics
      then Some (ValueError (unknown_metric_compare metric))
      else validate_metrics ms)"

text \<open>\<open>df.groupby(entity_col)\<close>: the groups in the sorted order of their keys, each with
  its rows in the order of the frame.\<close>

definition groupby :: "(row \<Rightarrow> string) \<Rightarrow> row list \<Rightarrow> (string \<times> row list) list" where
  "groupby entity_col rs =
     map (\<lambda>k. (k, filter (\<lambda>r. entity_col r = k) rs)) (sort (remdups (map entity_col rs)))"

text \<open>The dict of the three metrics, lines 140 to 153 and 177 to 190.\<close>

definition entity_metrics :: "rat \<Rightarrow> rat \<Rightarrow> rat \<Rightarrow> metric_dict" where
  "entity_metrics total_revenue total_cogs total_opex =
     [(''revenue'', (total_revenue, 1)),
      (''gross_margin'',
         (total_revenue - total_cogs,
          if total_revenue > 0 then (total_revenue - total_cogs) / total_revenue else 0)),
      (''ebitda'',
         (total_revenue - total_cogs - total_opex,
          if total_revenue > 0
          then (total_revenue - total_cogs - total_opex) / total_revenue else 0))]"

text \<open>\<open>{metric: d[metric] for metric in metrics}\<close>: a key that \<open>d\<close> lacks is a KeyError;
  a key that comes twice keeps its first place.\<close>

fun select_metrics :: "metric_dict \<Rightarrow> string list \<Rightarrow> metric_dict \<Rightarrow> error + metric_dict" where
  "select_metrics d [] acc = Inr acc"
| "select_metrics d (metric # ms) acc =
     (case map_of d metric of
        None \<Rightarrow> Inl (KeyError metric)
      | Some v \<Rightarrow> select_metrics d ms (AList.update metric v acc))"

text \<open>Lines 134 to 159: one summary for every group.\<close>

fun summarise ::
  "dataframe \<Rightarrow> string list \<Rightarrow> (string \<times> row list) list \<Rightarrow> error + summary list" where
  "summarise df metrics [] = Inr []"
| "summarise df metrics ((entity_name, grp) # gs) =
     (let total_revenue = sum_list (map Revenue grp);
          total_cogs = sum_list (map COGS grp);
          total_opex = (if has_OPEX df then sum_list (map OPEX grp) else 0)
      in
        case select_metrics (entity_metrics total_revenue total_cogs total_opex) metrics [] of
          Inl e \<Rightarrow> Inl e
        | Inr ms \<Rightarrow>
            (case summarise df metrics gs of
               Inl e \<Rightarrow> Inl e
             | Inr rest \<Rightarrow>
                 Inr (\<lparr>s_name = entity_name, s_revenue = total_revenue, s_metrics = ms\<rparr>
                      # rest)))"

text \<open>Lines 172 to 190: the metrics of the whole frame.\<close>

definition overall_entry :: "dataframe \<Rightarrow> metric_dict" where
  "overall_entry df =
     (let total_revenue = sum_list (map Revenue (rows df));
          total_cogs = sum_list (map COGS (rows df));
          total_opex = (if has_OPEX df then sum_list (map OPEX (rows df)) else 0)
      in entity_metrics total_revenue total_cogs total_opex)"

text \<open>Lines 192 to 194: every entry of \<open>results\<close> is narrowed to the requested metrics,
  in place.\<close>

fun project_results ::
  "string list \<Rightarrow> (string \<times> metric_dict) list \<Rightarrow> error + (string \<times> metric_dict) list" where
  "project_results metrics [] = Inr []"
| "project_results metrics ((entity, d) # rest) =
     (case select_metrics d metrics [] of
        Inl e \<Rightarrow> Inl e
      | Inr d' \<Rightarrow>
          (case project_results metrics rest of
             Inl e \<Rightarrow> Inl e
           | Inr rest' \<Rightarrow> Inr ((entity, d') # rest')))"

text \<open>\<open>list.sort(key=lambda x: x['revenue'], reverse=True)\<close> is stable: summaries of
  equal revenue keep their order. \<open>results[k] = v\<close> on a dict replaces the value of a
  key that is there, at its place, and appends a new key (\<open>AList.update\<close>).\<close>

definition compare_performance ::
  "dataframe \<Rightarrow> string \<Rightarrow> string list option \<Rightarrow> int option \<Rightarrow>
   error + (string \<times> metric_dict) list" where
  "compare_performance df entity_type metrics0 top_n =
     (if lower entity_type \<notin> set [''customer'', ''project'']
      then Inl (ValueError invalid_entity_type)
      else
        (let metrics = (case metrics0 of None \<Rightarrow> [''revenue'', ''gross_margin'', ''ebitda'']
                        | Some ms \<Rightarrow> ms)
         in case validate_metrics metrics of
              Some e \<Rightarrow> Inl e
            | None \<Rightarrow>
                (let entity_col =
                       (if lower entity_type = ''customer'' then CustomerName else ProjectName);
                     grouped = groupby entity_col (rows df)
                 in case summarise df metrics grouped of
                      Inl e \<Rightarrow> Inl e
                    | Inr entities_summary \<Rightarrow>
                        (let sorted_summary = sort_key (\<lambda>x. - s_revenue x) entities_summary;
                             limited =
                               (case top_n of
                                  None \<Rightarrow> sorted_summary
                                | Some n \<Rightarrow>
                                    if n > 0 then take (nat n) sorted_summary
                                    else sorted_summary);
                             results =
                               fold (\<lambda>entity res. AList.update (s_name entity) (s_metrics entity) res)
                                 limited [];
                             results' = AList.update ''OVERALL'' (overall_entry df) results
                         in project_results metrics results'))))"

section \<open>The directory lookups\<close>

text \<open>Lines 259 to 300. \<open>sorted(...)\<close> of the distinct names.\<close>

definition list_customer_projects :: "scorer \<Rightarrow> dataframe \<Rightarrow> string \<Rightarrow> error + string list" where
  "list_customer_projects sc df customer_name =
     (case extractOne sc customer_name (unique (map CustomerName (rows df))) of
        None \<Rightarrow> Inl TypeError
      | Some (name, score) \<Rightarrow>
          if score > 80
          then Inr (sort (unique (map ProjectName
                      (filter (\<lambda>r. CustomerName r = name) (rows df)))))
          else Inl (ValueError (no_close_match ''customer'' customer_name name)))"

definition list_project_customers :: "scorer \<Rightarrow> dataframe \<Rightarrow> string \<Rightarrow> error + string list" where
  "list_project_customers sc df project_name =
     (case extractOne sc project_name (unique (map ProjectName (rows df))) of
        None \<Rightarrow> Inl TypeError
      | Some (name, score) \<Rightarrow>
          if score > 80
          then Inr (sort (unique (map CustomerName
                      (filter (\<lambda>r. ProjectName r = name) (rows df)))))
          else Inl (ValueError (no_close_match ''project'' project_name name)))"

section \<open>A concrete scorer and frames for the examples\<close>

text \<open>A scorer for the examples: 100 for two strings that are equal up to the case of
  their letters, 0 for any other pair. On the pairs of the examples that decide a result
  (a name against itself or its case variant, and strings that share no letter) the
  scorer of the library gives the same scores.\<close>

definition ci_scorer :: scorer where
  "ci_scorer a b = (if lower a = lower b then 100 else 0)"

definition mk_row :: "string \<Rightarrow> string \<Rightarrow> rat \<Rightarrow> rat \<Rightarrow> rat \<Rightarrow> row" where
  "mk_row c p r g x =
     \<lparr>CustomerName = c, ProjectName = p, Revenue = r, COGS = g, OPEX = x\<rparr>"

definition frame_two :: dataframe where
  "frame_two =
     \<lparr>has_OPEX = True,
      rows = [mk_row ''Acme'' ''Alpha'' 100 40 10,
              mk_row ''Bolt'' ''Orion'' 50 10 5,
              mk_row ''Acme'' ''Alpha'' 0 3 1]\<rparr>"

definition frame_no_opex :: dataframe where
  "frame_no_opex =
     \<lparr>has_OPEX = False,
      rows = [mk_row ''Acme'' ''Alpha'' 100 40 0,
              mk_row ''Bolt'' ''Orion'' 50 10 0]\<rparr>"


definition frame_variants :: dataframe where
  "frame_variants =
     \<lparr>has_OPEX = True,
      rows = [mk_row ''ACME'' ''Alpha'' 100 40 10,
              mk_row ''Acme'' ''Orion'' 50 10 5]\<rparr>"

definition frame_overall :: dataframe where
  "frame_overall =
     \<lparr>has_OPEX = True,
      rows = [mk_row ''OVERALL'' ''Alpha'' 100 40 10,
              mk_row ''Beta'' ''Orion'' 50 10 5]\<rparr>"

text \<open>A frame with the columns and no row.\<close>

definition frame_empty :: dataframe where
  "frame_empty = \<lparr>has_OPEX = True, rows = []\<rparr>"

text \<open>A graded scorer for the examples: 100 times the length of the common prefix of the
  two strings in lower case, divided by the length of the longer string.\<close>

fun common_prefix :: "string \<Rightarrow> string \<Rightarrow> nat" where
  "common_prefix (a # as) (b # bs) = (if a = b then Suc (common_prefix as bs) else 0)"
| "common_prefix _ _ = 0"

definition prefix_scorer :: scorer where
  "prefix_scorer a b =
     (if a = [] \<or> b = [] then 0
      else 100 * of_nat (common_prefix (lower a) (lower b)) / of_nat (max (length a) (length b)))"

section \<open>\<open>get_data\<close> with the arithmetic of the columns as a parameter\<close>

text \<open>pandas computes on the \<open>Revenue\<close>, \<open>COGS\<close> and \<open>OPEX\<close> columns in their dtype,
  \<open>float64\<close> or \<open>int64\<close>: a difference of two series or of two scalars (\<open>col_sub\<close>),
  \<open>Series.sum()\<close> (\<open>col_sum\<close>) and a quotient (\<open>col_div\<close>) are operations of numpy,
  outside the repository. They are the parameter \<open>arith\<close> of the definitions of this
  section, which are those of \<open>overall_metric\<close>, \<open>row_metric\<close> and \<open>get_data\<close> with
  these operations in the place of the exact ones.\<close>

record arith =
  col_sub :: "rat \<Rightarrow> rat \<Rightarrow> rat"
  col_sum :: "rat list \<Rightarrow> rat"
  col_div :: "rat \<Rightarrow> rat \<Rightarrow> rat"

text \<open>The exact operations: with them the definitions of this section are the ones
  above (lemmas \<open>row_metric_with_exact\<close>, \<open>overall_metric_with_exact\<close>,
  \<open>get_data_with_exact\<close>).\<close>

definition exact_arith :: arith where
  "exact_arith = \<lparr>col_sub = (\<lambda>a b. a - b), col_sum = sum_list, col_div = (\<lambda>a b. a / b)\<rparr>"

text \<open>The operations of \<open>float64\<close>: the exact result rounded to 53 significant bits, to the
  nearest value and to the even one at a tie (\<open>round_f64\<close>, for magnitudes in the normal
  range of the format; underflow and overflow are not modelled). \<open>bits k\<close> is the number
  of binary digits of \<open>k\<close>, \<open>ilog2 x\<close> the exponent \<open>e\<close> with \<open>2 ^ e \<le> x < 2 ^ (e + 1)\<close>.\<close>

function bits :: "int \<Rightarrow> int" where
  "bits k = (if k \<le> 0 then 0 else 1 + bits (k div 2))"
  by pat_completeness auto
termination
  by (relation "measure nat") auto

definition pow2 :: "int \<Rightarrow> rat" where
  "pow2 e = (if e \<ge> 0 then 2 ^ nat e else 1 / 2 ^ nat (- e))"

definition ilog2 :: "rat \<Rightarrow> int" where
  "ilog2 x =
     (case quotient_of x of (p, q) \<Rightarrow>
        (let d = bits p - bits q
         in if pow2 d \<le> x then d else d - 1))"

definition round_f64 :: "rat \<Rightarrow> rat" where
  "round_f64 x =
     (if x = 0 then 0
      else (let a = \<bar>x\<bar>; e = ilog2 a; u = pow2 (e - 52)
            in sgn x * of_int (py_round (a / u)) * u))"

text \<open>The sum of \<open>f64_arith\<close> adds from left to right, starting at 0, as numpy's sum does
  for a series of fewer than 8 elements; the frames of the examples are that short.\<close>

definition f64_arith :: arith where
  "f64_arith =
     \<lparr>col_sub = (\<lambda>a b. round_f64 (a - b)),
      col_sum = (\<lambda>xs. foldl (\<lambda>s x. round_f64 (s + x)) 0 xs),
      col_div = (\<lambda>a b. round_f64 (a / b))\<rparr>"

text \<open>Division of a series by a series, at one position, as \<open>float_div\<close>.\<close>

definition series_div :: "arith \<Rightarrow> rat \<Rightarrow> rat \<Rightarrow> number" where
  "series_div ar a b =
     (if b \<noteq> 0 then Finite (col_div ar a b)
      else if a > 0 then PosInf
      else if a < 0 then NegInf
      else NaN)"

text \<open>Lines 47 to 71.\<close>

definition overall_metric_with ::
  "arith \<Rightarrow> string \<Rightarrow> dataframe \<Rightarrow> error + (rat list \<times> number list)" where
  "overall_metric_with ar metric df =
     (let total_revenue = col_sum ar (map Revenue (rows df));
          total_cogs = col_sum ar (map COGS (rows df))
      in
        if metric = ''gross_margin'' then
          (let overall_value = col_sub ar total_revenue total_cogs;
               overall_percentage =
                 (if total_revenue > 0 then col_div ar overall_value total_revenue else 0)
           in Inr ([overall_value], [Finite overall_percentage]))
        else if metric = ''revenue'' then
          Inr ([total_revenue], [Finite 1])
        else if metric = ''ebitda'' then
          (if \<not> has_OPEX df then Inl (KeyError ''OPEX'')
           else
             (let total_opex = col_sum ar (map OPEX (rows df));
                  overall_value = col_sub ar (col_sub ar total_revenue total_cogs) total_opex;
                  overall_percentage =
                    (if total_revenue > 0 then col_div ar overall_value total_revenue else 0)
              in Inr ([overall_value], [Finite overall_percentage])))
        else Inl (ValueError (unknown_metric_get_data metric)))"

text \<open>Lines 73 to 89.\<close>

definition row_metric_with ::
  "arith \<Rightarrow> string \<Rightarrow> dataframe \<Rightarrow> error + (rat list \<times> number list)" where
  "row_metric_with ar metric df =
     (if metric = ''gross_margin'' then
        (let result_value = map (\<lambda>r. col_sub ar (Revenue r) (COGS r)) (rows df)
         in Inr (result_value, map2 (series_div ar) result_value (map Revenue (rows df))))
      else if metric = ''revenue'' then
        Inr (map Revenue (rows df), replicate (length (rows df)) (Finite 1))
      else if metric = ''ebitda'' then
        (if \<not> has_OPEX df then Inl (KeyError ''OPEX'')
         else
           (let result_value =
                  map (\<lambda>r. col_sub ar (col_sub ar (Revenue r) (COGS r)) (OPEX r)) (rows df)
            in Inr (result_value, map2 (series_div ar) result_value (map Revenue (rows df)))))
      else Inl (ValueError (unknown_metric_get_data metric)))"

definition get_data_with ::
  "arith \<Rightarrow> scorer \<Rightarrow> dataframe \<Rightarrow> string \<Rightarrow> string option \<Rightarrow> string option \<Rightarrow>
   error + (rat list \<times> number list)" where
  "get_data_with ar sc df0 metric0 customer0 project0 =
     (case filter_customer sc df0 customer0 of
        Inl e \<Rightarrow> Inl e
      | Inr (customer, df1) \<Rightarrow>
          (case filter_project sc df1 project0 of
             Inl e \<Rightarrow> Inl e
           | Inr (project, df) \<Rightarrow>
               (let metric = lower metric0
                in if \<not> truthy customer \<and> \<not> truthy project
                   then overall_metric_with ar metric df
                   else row_metric_with ar metric df)))"

text \<open>The sums and differences that the two modes of \<open>get_data\<close> perform on a frame are
  exact: none of them is rounded (or wraps around, for \<open>int64\<close>).\<close>

definition exact_on :: "arith \<Rightarrow> dataframe \<Rightarrow> bool" where
  "exact_on ar df =
     (let rs = rows df;
          R = map Revenue rs;
          C = map COGS rs;
          X = map OPEX rs;
          G = map (\<lambda>r. Revenue r - COGS r) rs;
          E = map (\<lambda>r. Revenue r - COGS r - OPEX r) rs
      in col_sum ar R = sum_list R
       \<and> col_sum ar C = sum_list C
       \<and> col_sum ar G = sum_list G
       \<and> list_all (\<lambda>r. col_sub ar (Revenue r) (COGS r) = Revenue r - COGS r) rs
       \<and> col_sub ar (sum_list R) (sum_list C) = sum_list R - sum_list C
       \<and> (has_OPEX df \<longrightarrow>
             col_sum ar X = sum_list X
           \<and> col_sum ar E = sum_list E
           \<and> list_all (\<lambda>r. col_sub ar (Revenue r - COGS r) (OPEX r) = Revenue r - COGS r - OPEX r) rs
           \<and> col_sub ar (sum_list R - sum_list C) (sum_list X) =
               sum_list R - sum_list C - sum_list X))"

text \<open>A frame read from the decimals 0.1 and 0.2: the nearest \<open>float64\<close> values.\<close>

definition frame_tenths :: dataframe where
  "frame_tenths =
     \<lparr>has_OPEX = True,
      rows = [mk_row ''Acme'' ''Alpha''
                (3602879701896397 / 36028797018963968) (3602879701896397 / 36028797018963968) 0,
              mk_row ''Bolt'' ''Orion''
                (3602879701896397 / 18014398509481984) (3602879701896397 / 36028797018963968) 0]\<rparr>"

section \<open>Facts about the helpers\<close>

lemma set_unique: "set (unique xs) = set xs"
  by (induction xs rule: unique.induct) auto

lemma distinct_unique: "distinct (unique xs)"
  by (induction xs rule: unique.induct) (auto simp: set_unique)

lemma unique_Nil_iff: "unique xs = [] \<longleftrightarrow> xs = []"
  by (cases xs) auto

lemma best_of_mem: "best_of b cs \<in> insert b (set cs)"
  by (induction cs arbitrary: b) (auto split: if_splits)

lemma best_of_ge_start: "snd b \<le> snd (best_of b cs)"
proof (induction cs arbitrary: b)
  case Nil
  show ?case by simp
next
  case (Cons c cs)
  have "snd b \<le> snd (if snd c > snd b then c else b)" by simp
  also have "\<dots> \<le> snd (best_of (if snd c > snd b then c else b) cs)" by (rule Cons.IH)
  finally show ?case by simp
qed

lemma best_of_ge_all: "c \<in> set cs \<Longrightarrow> snd c \<le> snd (best_of b cs)"
proof (induction cs arbitrary: b)
  case Nil
  then show ?case by simp
next
  case (Cons d cs)
  show ?case
  proof (cases "c = d")
    case True
    have "snd d \<le> snd (if snd d > snd b then d else b)" by simp
    also have "\<dots> \<le> snd (best_of (if snd d > snd b then d else b) cs)"
      by (rule best_of_ge_start)
    finally show ?thesis using True by simp
  next
    case False
    with Cons.prems have "c \<in> set cs" by simp
    then show ?thesis using Cons.IH by simp
  qed
qed



lemma get_data_ebitda_needs_OPEX:
  "\<not> has_OPEX df \<Longrightarrow> get_data sc df ''ebitda'' None None = Inl (KeyError ''OPEX'')"
  by (simp add: get_data_def filter_customer_def filter_project_def truthy_def
      overall_metric_def lower_def char_lower_def)

lemma sum_list_minus:
  fixes f g :: "'a \<Rightarrow> rat"
  shows "sum_list (map (\<lambda>r. f r - g r) rs) = sum_list (map f rs) - sum_list (map g rs)"
  by (induction rs) simp_all




lemma best_of_first_max:
  "best_of b ps = r \<Longrightarrow> List.find (\<lambda>p. snd p = snd r) (b # ps) = Some r"
proof (induction ps arbitrary: b)
  case Nil
  then show ?case by simp
next
  case (Cons c cs)
  define b' where "b' = (if snd c > snd b then c else b)"
  have r: "best_of b' cs = r" using Cons.prems by (simp add: b'_def)
  have ih: "List.find (\<lambda>p. snd p = snd r) (b' # cs) = Some r" by (rule Cons.IH [OF r])
  have ge: "snd b' \<le> snd r" using best_of_ge_start [of b' cs] r by simp
  show ?case
  proof (cases "snd c > snd b")
    case True
    then have b': "b' = c" by (simp add: b'_def)
    from True ge b' have "snd b \<noteq> snd r" by simp
    then have "List.find (\<lambda>p. snd p = snd r) (b # c # cs) = List.find (\<lambda>p. snd p = snd r) (c # cs)"
      by simp
    with ih b' show ?thesis by simp
  next
    case False
    then have b': "b' = b" by (simp add: b'_def)
    show ?thesis
    proof (cases "snd b = snd r")
      case True
      then have "List.find (\<lambda>p. snd p = snd r) (b # cs) = Some b" by simp
      with ih b' have "b = r" by simp
      with True show ?thesis by simp
    next
      case nb: False
      with ge b' False have nc: "snd c \<noteq> snd r" by simp
      from nb have "List.find (\<lambda>p. snd p = snd r) (b # cs) = List.find (\<lambda>p. snd p = snd r) cs"
        by simp
      with ih b' have tl: "List.find (\<lambda>p. snd p = snd r) cs = Some r" by simp
      from nb nc have "List.find (\<lambda>p. snd p = snd r) (b # c # cs) = List.find (\<lambda>p. snd p = snd r) cs"
        by simp
      with tl show ?thesis by simp
    qed
  qed
qed

lemma find_map_pair:
  "List.find (\<lambda>p. snd p = s) (map (\<lambda>c. (c, f c)) cs) =
     map_option (\<lambda>c. (c, f c)) (List.find (\<lambda>c. f c = s) cs)"
  by (induction cs) simp_all

lemma py_round_of_int: "py_round (of_int n) = n"
  by (simp add: py_round_def)

lemma py_round_le: "x \<le> of_int n \<Longrightarrow> py_round x \<le> n"
proof -
  assume le: "x \<le> of_int n"
  show ?thesis
  proof (cases "x = of_int n")
    case True
    then show ?thesis by (simp add: py_round_of_int)
  next
    case False
    with le have "x < of_int n" by simp
    then have "\<lfloor>x\<rfloor> < n" by (simp add: floor_less_iff)
    then have "\<lfloor>x\<rfloor> + 1 \<le> n" by simp
    then show ?thesis by (auto simp: py_round_def Let_def)
  qed
qed

lemma extractOne_None_iff: "extractOne sc q cs = None \<longleftrightarrow> cs = []"
  by (cases cs) (simp_all add: extractOne_def split: prod.splits)

lemma extractOne_Cons:
  "extractOne sc q (c # cs) =
     Some (fst (best_of (c, sc q c) (map (\<lambda>c. (c, sc q c)) cs)),
           py_round (snd (best_of (c, sc q c) (map (\<lambda>c. (c, sc q c)) cs))))"
  by (simp add: extractOne_def split: prod.splits)

text \<open>On a list with a choice, \<open>extractOne\<close> returns the first choice of the highest score
  and that score rounded.\<close>

lemma extractOne_nonempty:
  assumes "cs \<noteq> []"
  shows "\<exists>name. name \<in> set cs
           \<and> (\<forall>c \<in> set cs. sc q c \<le> sc q name)
           \<and> List.find (\<lambda>c. sc q c = sc q name) cs = Some name
           \<and> extractOne sc q cs = Some (name, py_round (sc q name))"
proof -
  from assms obtain c cs' where cs: "cs = c # cs'" by (cases cs) auto
  let ?ps = "map (\<lambda>c. (c, sc q c)) cs'"
  define r where "r = best_of (c, sc q c) ?ps"
  obtain name score where r_eq: "r = (name, score)" by (cases r)
  have mem: "r \<in> insert (c, sc q c) (set ?ps)"
    unfolding r_def by (rule best_of_mem)
  then have name: "name \<in> set cs" and score: "score = sc q name"
    using r_eq cs by auto
  have best: "\<forall>d \<in> set cs. sc q d \<le> sc q name"
  proof
    fix d assume "d \<in> set cs"
    then consider "d = c" | "d \<in> set cs'" using cs by auto
    then show "sc q d \<le> sc q name"
    proof cases
      case 1
      then show ?thesis
        using best_of_ge_start [of "(c, sc q c)" ?ps] r_eq score by (simp add: r_def)
    next
      case 2
      then have "(d, sc q d) \<in> set ?ps" by auto
      from best_of_ge_all [OF this, of "(c, sc q c)"] show ?thesis
        using r_eq score by (simp add: r_def)
    qed
  qed
  have "List.find (\<lambda>p. snd p = snd r) ((c, sc q c) # ?ps) = Some r"
    by (rule best_of_first_max) (simp add: r_def)
  then have "List.find (\<lambda>p. snd p = sc q name) (map (\<lambda>c. (c, sc q c)) cs) = Some (name, sc q name)"
    using r_eq score cs by simp
  then have "map_option (\<lambda>c. (c, sc q c)) (List.find (\<lambda>c. sc q c = sc q name) cs) =
               Some (name, sc q name)"
    by (simp only: find_map_pair)
  then have first: "List.find (\<lambda>c. sc q c = sc q name) cs = Some name" by auto
  have "extractOne sc q cs = Some (name, py_round (sc q name))"
    using r_eq score by (simp add: cs extractOne_Cons r_def [symmetric])
  with name best first show ?thesis by blast
qed

lemma validate_metrics_None:
  "validate_metrics ms = None \<longleftrightarrow> (\<forall>m \<in> set ms. lower m \<in> set valid_metrics)"
  by (induction ms) simp_all

lemma validate_metrics_Some:
  "\<exists>m \<in> set ms. lower m \<notin> set valid_metrics \<Longrightarrow>
   \<exists>bad \<in> set ms. lower bad \<notin> set valid_metrics \<and>
      validate_metrics ms = Some (ValueError (unknown_metric_compare bad))"
  by (induction ms) auto

lemma validate_metrics_error:
  "validate_metrics ms = Some e \<Longrightarrow> \<exists>bad \<in> set ms. lower bad \<notin> set valid_metrics"
  by (induction ms) (auto split: if_splits)

lemma no_close_match_not_unknown:
  "no_close_match kind q cand \<noteq> unknown_metric_get_data m"
  by (simp add: no_close_match_def unknown_metric_get_data_def)

lemma invalid_entity_type_not_unknown:
  "invalid_entity_type \<noteq> unknown_metric_compare m"
  by (simp add: invalid_entity_type_def unknown_metric_compare_def)

lemma filter_customer_error:
  "filter_customer sc df customer = Inl e \<Longrightarrow>
   e = TypeError \<or> (\<exists>q cand. e = ValueError (no_close_match ''customer'' q cand))"
  by (auto simp: filter_customer_def split: option.splits if_splits prod.splits)

lemma filter_project_error:
  "filter_project sc df project = Inl e \<Longrightarrow>
   e = TypeError \<or> (\<exists>q cand. e = ValueError (no_close_match ''project'' q cand))"
  by (auto simp: filter_project_def split: option.splits if_splits prod.splits)

lemma overall_metric_valid:
  "m \<in> set valid_metrics \<Longrightarrow> overall_metric m df \<noteq> Inl (ValueError (unknown_metric_get_data m'))"
  by (auto simp: overall_metric_def valid_metrics_def Let_def)

lemma row_metric_valid:
  "m \<in> set valid_metrics \<Longrightarrow> row_metric m df \<noteq> Inl (ValueError (unknown_metric_get_data m'))"
  by (auto simp: row_metric_def valid_metrics_def Let_def)

lemma overall_metric_unknown:
  "m \<notin> set valid_metrics \<Longrightarrow> overall_metric m df = Inl (ValueError (unknown_metric_get_data m))"
  by (simp add: overall_metric_def valid_metrics_def Let_def)

lemma row_metric_unknown:
  "m \<notin> set valid_metrics \<Longrightarrow> row_metric m df = Inl (ValueError (unknown_metric_get_data m))"
  by (simp add: row_metric_def valid_metrics_def Let_def)

lemma get_data_valid_metric:
  assumes "lower metric \<in> set valid_metrics"
  shows "get_data sc df metric customer project \<noteq> Inl (ValueError (unknown_metric_get_data m'))"
proof (cases "filter_customer sc df customer")
  case (Inl e)
  then have "get_data sc df metric customer project = Inl e" by (simp add: get_data_def)
  with filter_customer_error [OF Inl] show ?thesis
    by (auto simp: no_close_match_not_unknown no_close_match_not_unknown [symmetric])
next
  case (Inr cd)
  obtain c df1 where cd: "cd = (c, df1)" by (cases cd)
  show ?thesis
  proof (cases "filter_project sc df1 project")
    case (Inl e)
    with Inr cd have "get_data sc df metric customer project = Inl e" by (simp add: get_data_def)
    with filter_project_error [OF Inl] show ?thesis
      by (auto simp: no_close_match_not_unknown no_close_match_not_unknown [symmetric])
  next
    case r: (Inr pd)
    obtain p df2 where pd: "pd = (p, df2)" by (cases pd)
    have "get_data sc df metric customer project =
            (if \<not> truthy c \<and> \<not> truthy p then overall_metric (lower metric) df2
             else row_metric (lower metric) df2)"
      using Inr cd r pd by (simp add: get_data_def)
    then show ?thesis
      using overall_metric_valid [OF assms] row_metric_valid [OF assms] by simp
  qed
qed

lemma select_metrics_not_ValueError:
  "select_metrics d ms acc \<noteq> Inl (ValueError s)"
  by (induction d ms acc rule: select_metrics.induct) (auto split: option.splits)

lemma summarise_not_ValueError:
  "summarise df ms gs \<noteq> Inl (ValueError s)"
proof (induction gs)
  case Nil
  show ?case by simp
next
  case (Cons g gs)
  obtain entity_name grp where g: "g = (entity_name, grp)" by (cases g)
  define d where "d = entity_metrics (sum_list (map Revenue grp)) (sum_list (map COGS grp))
                        (if has_OPEX df then sum_list (map OPEX grp) else 0)"
  have eq: "summarise df ms (g # gs) =
          (case select_metrics d ms [] of
             Inl e \<Rightarrow> Inl e
           | Inr m \<Rightarrow>
               (case summarise df ms gs of
                  Inl e \<Rightarrow> Inl e
                | Inr rest \<Rightarrow>
                    Inr (\<lparr>s_name = entity_name, s_revenue = sum_list (map Revenue grp),
                           s_metrics = m\<rparr> # rest)))"
    by (simp only: g summarise.simps Let_def d_def)
  show ?case
    using Cons.IH select_metrics_not_ValueError [of d ms "[]" s]
    by (auto simp: eq split: sum.splits)
qed

lemma project_results_not_ValueError:
  "project_results ms rs \<noteq> Inl (ValueError s)"
proof (induction rs)
  case Nil
  show ?case by simp
next
  case (Cons r rs)
  obtain entity d where r: "r = (entity, d)" by (cases r)
  show ?case
    using Cons.IH select_metrics_not_ValueError [of d ms "[]" s]
    by (auto simp: r split: sum.splits)
qed

lemma compare_performance_ValueError:
  "compare_performance df entity_type (Some ms) top_n = Inl (ValueError s) \<Longrightarrow>
   s = invalid_entity_type \<or> validate_metrics ms = Some (ValueError s)"
  by (auto simp: compare_performance_def Let_def summarise_not_ValueError
        project_results_not_ValueError split: if_splits option.splits sum.splits)

lemma compare_performance_valid_metrics:
  assumes "\<forall>m \<in> set ms. lower m \<in> set valid_metrics"
  shows "compare_performance df entity_type (Some ms) top_n \<noteq>
           Inl (ValueError (unknown_metric_compare m'))"
proof
  assume "compare_performance df entity_type (Some ms) top_n =
            Inl (ValueError (unknown_metric_compare m'))"
  from compare_performance_ValueError [OF this]
  have "validate_metrics ms = Some (ValueError (unknown_metric_compare m'))"
    using invalid_entity_type_not_unknown [of m'] by auto
  moreover have "validate_metrics ms = None" using assms by (simp add: validate_metrics_None)
  ultimately show False by simp
qed

lemma lower_valid_metric: "v \<in> set valid_metrics \<Longrightarrow> lower v = v"
proof -
  have "lower ''revenue'' = ''revenue''" "lower ''gross_margin'' = ''gross_margin''"
    "lower ''ebitda'' = ''ebitda''" by code_simp+
  then show "v \<in> set valid_metrics \<Longrightarrow> lower v = v"
    by (auto simp: valid_metrics_def)
qed

lemma map_of_entity_metrics_None:
  "map_of (entity_metrics a b c) m = None \<longleftrightarrow> m \<notin> set valid_metrics"
  by (simp add: entity_metrics_def valid_metrics_def)

lemma select_metrics_KeyError:
  "\<exists>m \<in> set ms. m \<notin> set valid_metrics \<Longrightarrow>
   \<exists>k \<in> set ms. k \<notin> set valid_metrics \<and>
     (\<forall>a b c acc. select_metrics (entity_metrics a b c) ms acc = Inl (KeyError k))"
proof (induction ms)
  case Nil
  then show ?case by simp
next
  case (Cons m ms)
  show ?case
  proof (cases "m \<in> set valid_metrics")
    case False
    then have "select_metrics (entity_metrics a b c) (m # ms) acc = Inl (KeyError m)" for a b c acc
      using map_of_entity_metrics_None [of a b c m] by simp
    with False show ?thesis by auto
  next
    case True
    with Cons.prems have "\<exists>m \<in> set ms. m \<notin> set valid_metrics" by auto
    from Cons.IH [OF this] obtain k where k: "k \<in> set ms" "k \<notin> set valid_metrics"
      "\<And>a b c acc. select_metrics (entity_metrics a b c) ms acc = Inl (KeyError k)" by blast
    have "select_metrics (entity_metrics a b c) (m # ms) acc = Inl (KeyError k)" for a b c acc
    proof -
      from True obtain v where "map_of (entity_metrics a b c) m = Some v"
        using map_of_entity_metrics_None [of a b c m] by (cases "map_of (entity_metrics a b c) m") auto
      then show ?thesis using k(3) by simp
    qed
    with k show ?thesis by auto
  qed
qed

lemma summarise_KeyError:
  assumes "\<And>a b c acc. select_metrics (entity_metrics a b c) ms acc = Inl (KeyError k)"
  shows "summarise df ms gs = (if gs = [] then Inr [] else Inl (KeyError k))"
proof (cases gs)
  case Nil
  then show ?thesis by simp
next
  case (Cons g gs')
  obtain entity_name grp where g: "g = (entity_name, grp)" by (cases g)
  show ?thesis by (simp add: Cons g Let_def assms)
qed

lemma summarise_Cons_Inr:
  assumes "summarise df ms ((n, grp) # gs) = Inr ss"
  shows "\<exists>m rest. ss = \<lparr>s_name = n, s_revenue = sum_list (map Revenue grp), s_metrics = m\<rparr> # rest
           \<and> summarise df ms gs = Inr rest"
proof -
  define d where "d = entity_metrics (sum_list (map Revenue grp)) (sum_list (map COGS grp))
                        (if has_OPEX df then sum_list (map OPEX grp) else 0)"
  have eq: "summarise df ms ((n, grp) # gs) =
          (case select_metrics d ms [] of
             Inl e \<Rightarrow> Inl e
           | Inr m \<Rightarrow>
               (case summarise df ms gs of
                  Inl e \<Rightarrow> Inl e
                | Inr rest \<Rightarrow>
                    Inr (\<lparr>s_name = n, s_revenue = sum_list (map Revenue grp),
                           s_metrics = m\<rparr> # rest)))"
    by (simp only: summarise.simps Let_def d_def)
  from assms show ?thesis
    unfolding eq by (auto split: sum.splits)
qed

lemma summarise_fields:
  "summarise df ms gs = Inr ss \<Longrightarrow>
   map s_name ss = map fst gs \<and>
   map s_revenue ss = map (\<lambda>g. sum_list (map Revenue (snd g))) gs"
proof (induction gs arbitrary: ss)
  case Nil
  then show ?case by simp
next
  case (Cons g gs)
  obtain n grp where g: "g = (n, grp)" by (cases g)
  from summarise_Cons_Inr [OF Cons.prems [unfolded g]]
  obtain m rest where ss: "ss = \<lparr>s_name = n, s_revenue = sum_list (map Revenue grp), s_metrics = m\<rparr> # rest"
    and rest: "summarise df ms gs = Inr rest" by blast
  from Cons.IH [OF rest] show ?case by (simp add: ss g)
qed

lemma groupby_keys: "map fst (groupby col rs) = sort (remdups (map col rs))"
  by (simp add: groupby_def comp_def)

lemma update_new_key: "k \<notin> fst ` set acc \<Longrightarrow> AList.update k v acc = acc @ [(k, v)]"
  by (induction acc) auto

lemma fold_update_distinct:
  "distinct (map s_name xs) \<Longrightarrow> set (map s_name xs) \<inter> fst ` set acc = {} \<Longrightarrow>
   fold (\<lambda>entity res. AList.update (s_name entity) (s_metrics entity) res) xs acc =
     acc @ map (\<lambda>e. (s_name e, s_metrics e)) xs"
proof (induction xs arbitrary: acc)
  case Nil
  show ?case by simp
next
  case (Cons x xs)
  from Cons.prems have nk: "s_name x \<notin> fst ` set acc" by auto
  have step: "AList.update (s_name x) (s_metrics x) acc = acc @ [(s_name x, s_metrics x)]"
    by (rule update_new_key [OF nk])
  have d: "distinct (map s_name xs)" using Cons.prems by simp
  have disj: "set (map s_name xs) \<inter> fst ` set (acc @ [(s_name x, s_metrics x)]) = {}"
    using Cons.prems by auto
  show ?case
    using Cons.IH [OF d disj] by (simp add: step)
qed

lemma distinct_map_insort_key:
  "distinct (map f (insort_key k x xs)) \<longleftrightarrow> f x \<notin> f ` set xs \<and> distinct (map f xs)"
  by (induction xs) (auto simp: set_insort_key)

lemma distinct_map_sort_key:
  "distinct (map f xs) \<Longrightarrow> distinct (map f (sort_key k xs))"
  by (induction xs) (auto simp: distinct_map_insort_key)

lemma project_results_all2:
  "project_results ms xs = Inr ys \<Longrightarrow>
   list_all2 (\<lambda>x y. fst y = fst x \<and> select_metrics (snd x) ms [] = Inr (snd y)) xs ys"
proof (induction xs arbitrary: ys)
  case Nil
  then show ?case by simp
next
  case (Cons x xs)
  obtain entity d where x: "x = (entity, d)" by (cases x)
  from Cons.prems obtain d' rest where d': "select_metrics d ms [] = Inr d'"
    and rest: "project_results ms xs = Inr rest" and ys: "ys = (entity, d') # rest"
    by (auto simp: x split: sum.splits)
  from Cons.IH [OF rest] show ?case by (simp add: x ys d')
qed

text \<open>What \<open>compare_performance\<close> returns when no entity of the grouped column is named
  \<open>OVERALL\<close>: the entities in the sorted order of their names are summarised with the sum
  of their \<open>Revenue\<close>, sorted by descending revenue with ties in that order, cut to the
  first \<open>top_n\<close> when \<open>top_n\<close> is positive, and followed by the entry \<open>OVERALL\<close> of the
  whole frame, which is the last one.\<close>

lemma compare_performance_listing:
  assumes ret: "compare_performance df entity_type (Some ms) top_n = Inr res"
    and col: "entity_col = (if lower entity_type = ''customer'' then CustomerName else ProjectName)"
    and free: "''OVERALL'' \<notin> entity_col ` set (rows df)"
    and lim: "limit = (\<lambda>xs. case top_n of None \<Rightarrow> xs
                             | Some n \<Rightarrow> if n > 0 then take (nat n) xs else xs)"
  shows "\<exists>ss d. summarise df ms (groupby entity_col (rows df)) = Inr ss
           \<and> map s_name ss = sort (remdups (map entity_col (rows df)))
           \<and> map s_revenue ss =
               map (\<lambda>k. sum_list (map Revenue (filter (\<lambda>r. entity_col r = k) (rows df))))
                 (sort (remdups (map entity_col (rows df))))
           \<and> sorted (map (\<lambda>x. - s_revenue x) (sort_key (\<lambda>x. - s_revenue x) ss))
           \<and> (\<forall>v. filter (\<lambda>x. - s_revenue x = v) (sort_key (\<lambda>x. - s_revenue x) ss) =
                    filter (\<lambda>x. - s_revenue x = v) ss)
           \<and> map fst res = map s_name (limit (sort_key (\<lambda>x. - s_revenue x) ss)) @ [''OVERALL'']
           \<and> select_metrics (overall_entry df) ms [] = Inr d
           \<and> last res = (''OVERALL'', d)"
proof -
  let ?gs = "groupby entity_col (rows df)"
  from ret have et: "lower entity_type \<in> set [''customer'', ''project'']"
    by (auto simp: compare_performance_def split: if_splits)
  from ret et have v: "validate_metrics ms = None"
    by (auto simp: compare_performance_def split: option.splits)
  from ret et v obtain ss where ss: "summarise df ms ?gs = Inr ss"
    by (cases "summarise df ms ?gs") (auto simp: compare_performance_def col Let_def)
  let ?sorted = "sort_key (\<lambda>x. - s_revenue x) ss"
  let ?results = "fold (\<lambda>entity res. AList.update (s_name entity) (s_metrics entity) res)
                    (limit ?sorted) []"
  have pr: "project_results ms (AList.update ''OVERALL'' (overall_entry df) ?results) = Inr res"
    using ret et v ss by (auto simp: compare_performance_def col Let_def lim split: if_splits)
  have names: "map s_name ss = sort (remdups (map entity_col (rows df)))"
    using summarise_fields [OF ss] by (simp add: groupby_keys)
  have revs: "map s_revenue ss =
               map (\<lambda>k. sum_list (map Revenue (filter (\<lambda>r. entity_col r = k) (rows df))))
                 (sort (remdups (map entity_col (rows df))))"
    using summarise_fields [OF ss] by (simp add: groupby_def comp_def)
  have dist: "distinct (map s_name ss)" by (simp add: names)
  have dss: "distinct (map s_name ?sorted)"
    by (rule distinct_map_sort_key [OF dist])
  have dl: "distinct (map s_name (limit ?sorted))"
    using dss by (auto simp: lim take_map [symmetric] split: option.splits)
  have sub: "set (limit ?sorted) \<subseteq> set ss"
    by (auto simp: lim split: option.splits dest: in_set_takeD)
  have results: "?results = map (\<lambda>e. (s_name e, s_metrics e)) (limit ?sorted)"
    using fold_update_distinct [OF dl, of "[]"] by simp
  have "set (map s_name ss) = entity_col ` set (rows df)" by (simp add: names)
  with free have "''OVERALL'' \<notin> s_name ` set ss" by simp
  with sub have "''OVERALL'' \<notin> s_name ` set (limit ?sorted)" by blast
  then have "''OVERALL'' \<notin> fst ` set ?results"
    by (simp add: results image_image)
  from update_new_key [OF this]
  have upd: "AList.update ''OVERALL'' (overall_entry df) ?results =
               map (\<lambda>e. (s_name e, s_metrics e)) (limit ?sorted) @ [(''OVERALL'', overall_entry df)]"
    by (simp add: results)
  from project_results_all2 [OF pr [unfolded upd]]
  obtain ys y where res: "res = ys @ [y]"
    and ys: "list_all2 (\<lambda>x y. fst y = fst x \<and> select_metrics (snd x) ms [] = Inr (snd y))
               (map (\<lambda>e. (s_name e, s_metrics e)) (limit ?sorted)) ys"
    and y: "fst y = ''OVERALL''" "select_metrics (overall_entry df) ms [] = Inr (snd y)"
    by (auto simp: list_all2_append1 list_all2_Cons1)
  have keys: "map fst ys = map s_name (limit ?sorted)"
    using ys by (induction "limit ?sorted" arbitrary: ys)
      (auto simp: list_all2_Cons1 list_all2_conv_all_nth intro: nth_equalityI)
  have "last res = (''OVERALL'', snd y)" using res y(1) by (cases y) simp
  moreover have "map fst res = map s_name (limit ?sorted) @ [''OVERALL'']"
    using res keys y(1) by simp
  moreover have "sorted (map (\<lambda>x. - s_revenue x) ?sorted)" by (rule sorted_sort_key)
  moreover have "\<forall>v. filter (\<lambda>x. - s_revenue x = v) ?sorted = filter (\<lambda>x. - s_revenue x = v) ss"
    by (simp add: sort_key_stable)
  ultimately show ?thesis using ss names revs y(2) by blast
qed

lemma filter_customer_SomeD:
  assumes "q \<noteq> []" and "filter_customer sc df (Some q) = Inr (c, df1)"
  shows "\<exists>name. c = Some name \<and> name \<in> CustomerName ` set (rows df)
           \<and> df1 = df\<lparr>rows := filter (\<lambda>r. CustomerName r = name) (rows df)\<rparr>"
proof -
  let ?names = "unique (map CustomerName (rows df))"
  from assms obtain name score where ex: "extractOne sc q ?names = Some (name, score)"
    and c: "c = Some name"
    and df1: "df1 = df\<lparr>rows := filter (\<lambda>r. CustomerName r = name) (rows df)\<rparr>"
    by (auto simp: filter_customer_def split: option.splits if_splits)
  from ex have ne: "?names \<noteq> []" using extractOne_None_iff [of sc q ?names] by auto
  from extractOne_nonempty [OF ne, of sc q] ex have "name \<in> set ?names" by auto
  then have "name \<in> CustomerName ` set (rows df)" by (simp add: set_unique)
  with c df1 show ?thesis by blast
qed

lemma get_data_with_unfiltered:
  "get_data_with ar sc df metric None None = overall_metric_with ar (lower metric) df"
  by (simp add: get_data_with_def filter_customer_def filter_project_def truthy_def)

lemma series_div_exact: "series_div exact_arith = float_div"
  by (intro ext) (simp add: series_div_def float_div_def exact_arith_def)

lemma row_metric_with_exact: "row_metric_with exact_arith metric df = row_metric metric df"
  by (simp add: row_metric_with_def row_metric_def series_div_exact Let_def)
     (simp add: exact_arith_def)

lemma overall_metric_with_exact:
  "overall_metric_with exact_arith metric df = overall_metric metric df"
  by (simp add: overall_metric_with_def overall_metric_def exact_arith_def Let_def)

lemma get_data_with_exact:
  "get_data_with exact_arith sc df metric customer project = get_data sc df metric customer project"
  by (simp add: get_data_with_def get_data_def row_metric_with_exact overall_metric_with_exact
        Let_def split: sum.splits prod.splits)

section \<open>The claims\<close>

text \<open>C10: in \<open>get_data\<close>, a customer or a project that is the empty string is treated as
  if it were absent: no name is resolved for it and no error can come from it, and with
  both empty the call returns the aggregate over the whole frame.\<close>

theorem get_data_empty_argument_absent:
  "get_data sc df metric (Some []) project = get_data sc df metric None project
   \<and> get_data sc df metric customer (Some []) = get_data sc df metric customer None
   \<and> get_data sc df metric (Some []) (Some []) = overall_metric (lower metric) df
   \<and> get_data sc df metric (Some []) (Some []) = get_data sc df metric None None"
  by (simp add: get_data_def filter_customer_def filter_project_def truthy_def
      split: sum.splits option.splits prod.splits)

text \<open>C1, at a frame without the column \<open>OPEX\<close>: \<open>get_data\<close> reads \<open>df['OPEX']\<close> with
  no test and fails with a KeyError for the metric \<open>ebitda\<close>, in the unfiltered and in
  the filtered mode, where \<open>compare_performance\<close> tests \<open>'OPEX' in df.columns\<close> and
  takes the OPEX to be 0.\<close>

theorem get_data_ebitda_missing_OPEX:
  "get_data ci_scorer frame_no_opex ''ebitda'' None None = Inl (KeyError ''OPEX'')
   \<and> get_data ci_scorer frame_no_opex ''ebitda'' (Some ''Acme'') None = Inl (KeyError ''OPEX'')
   \<and> compare_performance frame_no_opex ''customer'' (Some [''ebitda'']) None =
       Inr [(''Acme'', [(''ebitda'', (60, 3 / 5))]),
            (''Bolt'', [(''ebitda'', (40, 4 / 5))]),
            (''OVERALL'', [(''ebitda'', (100, 2 / 3))])]"
  by code_simp



text \<open>C7, as stated, fails: \<open>margin\<close> is no metric, yet \<open>get_data\<close> with a customer that
  does not resolve raises the error of the customer filter, which runs before the metric
  is looked at, and \<open>compare_performance\<close> with an entity type that is neither customer
  nor project raises the error of the entity type, which is tested first.\<close>

theorem unknown_metric_precedence_counterexample:
  "lower ''margin'' \<notin> set valid_metrics
   \<and> get_data ci_scorer frame_two ''margin'' (Some ''Quinn'') None =
       Inl (ValueError (no_close_match ''customer'' ''Quinn'' ''Acme''))
   \<and> get_data ci_scorer frame_two ''margin'' (Some ''Quinn'') None \<noteq>
       Inl (ValueError (unknown_metric_get_data ''margin''))
   \<and> compare_performance frame_two ''region'' (Some [''margin'']) None =
       Inl (ValueError invalid_entity_type)
   \<and> compare_performance frame_two ''region'' (Some [''margin'']) None \<noteq>
       Inl (ValueError (unknown_metric_compare ''margin''))"
  by code_simp

text \<open>C7, amended: for a metric name whose lower-case form is none of \<open>revenue\<close>,
  \<open>gross_margin\<close>, \<open>ebitda\<close>, \<open>get_data\<close> fails with the unknown-metric error that lists the
  three names whenever its customer and project filters succeed (they run first), and
  \<open>compare_performance\<close> with a valid entity type fails with the unknown-metric error of
  an invalid name of its list, whatever the frame and \<open>top_n\<close> are (the names are
  validated before the frame is grouped). For a valid name, and for a list of valid names,
  no such error is raised.\<close>

theorem unknown_metric_errors:
  "(lower metric \<notin> set valid_metrics \<longrightarrow>
      (filter_customer sc df customer = Inr (c, df1) \<and> filter_project sc df1 project = Inr (p, df2)
         \<longrightarrow> get_data sc df metric customer project =
               Inl (ValueError (unknown_metric_get_data (lower metric))))
      \<and> (lower entity_type \<in> set [''customer'', ''project''] \<and> metric \<in> set ms
         \<longrightarrow> (\<exists>bad \<in> set ms. lower bad \<notin> set valid_metrics \<and>
                (\<forall>df' n. compare_performance df' entity_type (Some ms) n =
                   Inl (ValueError (unknown_metric_compare bad))))))
   \<and> (lower metric \<in> set valid_metrics \<longrightarrow>
        get_data sc df metric customer project \<noteq> Inl (ValueError (unknown_metric_get_data m')))
   \<and> ((\<forall>m \<in> set ms. lower m \<in> set valid_metrics) \<longrightarrow>
        compare_performance df entity_type (Some ms) top_n \<noteq>
          Inl (ValueError (unknown_metric_compare m')))"
proof -
  have a: "get_data sc df metric customer project =
             Inl (ValueError (unknown_metric_get_data (lower metric)))"
    if "lower metric \<notin> set valid_metrics" "filter_customer sc df customer = Inr (c, df1)"
      "filter_project sc df1 project = Inr (p, df2)"
    using that by (simp add: get_data_def Let_def overall_metric_unknown row_metric_unknown)
  have b: "\<exists>bad \<in> set ms. lower bad \<notin> set valid_metrics \<and>
             (\<forall>df' n. compare_performance df' entity_type (Some ms) n =
                Inl (ValueError (unknown_metric_compare bad)))"
    if "lower metric \<notin> set valid_metrics" "lower entity_type \<in> set [''customer'', ''project'']"
      "metric \<in> set ms"
  proof -
    from that(1,3) have "\<exists>m \<in> set ms. lower m \<notin> set valid_metrics" by blast
    from validate_metrics_Some [OF this]
    obtain bad where bad: "bad \<in> set ms" "lower bad \<notin> set valid_metrics"
      "validate_metrics ms = Some (ValueError (unknown_metric_compare bad))" by blast
    have "compare_performance df' entity_type (Some ms) n =
            Inl (ValueError (unknown_metric_compare bad))" for df' n
      using that(2) bad(3) by (simp add: compare_performance_def)
    with bad show ?thesis by blast
  qed
  show ?thesis
    using a b get_data_valid_metric compare_performance_valid_metrics by blast
qed

theorem unknown_metric_errors_witness:
  "get_data ci_scorer frame_two ''margin'' (Some ''ACME'') None =
     Inl (ValueError (unknown_metric_get_data ''margin''))
   \<and> (\<exists>bad \<in> set [''Revenue'', ''margin''].
         compare_performance frame_two ''customer'' (Some [''Revenue'', ''margin'']) (Some 1) =
           Inl (ValueError (unknown_metric_compare bad)))
   \<and> get_data ci_scorer frame_two ''Revenue'' (Some ''ACME'') None \<noteq>
       Inl (ValueError (unknown_metric_get_data ''revenue''))
   \<and> compare_performance frame_two ''customer'' (Some [''revenue'']) None \<noteq>
       Inl (ValueError (unknown_metric_compare ''revenue''))"
proof -
  let ?acme = "frame_two\<lparr>rows := filter (\<lambda>r. CustomerName r = ''Acme'') (rows frame_two)\<rparr>"
  have h0: "lower ''margin'' \<notin> set valid_metrics" by code_simp
  have l: "lower ''margin'' = ''margin''" by code_simp
  have h1: "filter_customer ci_scorer frame_two (Some ''ACME'') = Inr (Some ''Acme'', ?acme)"
    by code_simp
  have h2: "filter_project ci_scorer ?acme None = Inr (None, ?acme)"
    by code_simp
  have h3: "lower ''customer'' \<in> set [''customer'', ''project'']" by code_simp
  have h4: "''margin'' \<in> set [''Revenue'', ''margin'']" by simp
  have h5: "lower ''Revenue'' \<in> set valid_metrics" by code_simp
  have h6: "\<forall>m \<in> set [''revenue'']. lower m \<in> set valid_metrics" by code_simp
  note t1 = unknown_metric_errors [where metric = "''margin''" and sc = ci_scorer
      and df = frame_two and customer = "Some ''ACME''" and c = "Some ''Acme''"
      and ?df1.0 = ?acme and project = None and p = None and ?df2.0 = ?acme
      and entity_type = "''customer''" and ms = "[''Revenue'', ''margin'']"]
  note t2 = unknown_metric_errors [where metric = "''Revenue''" and sc = ci_scorer
      and df = frame_two and customer = "Some ''ACME''" and project = None
      and entity_type = "''customer''" and ms = "[''revenue'']" and m' = "''revenue''"
      and top_n = None]
  from t1 h0 h1 h2 h3 h4 l
  have p1: "get_data ci_scorer frame_two ''margin'' (Some ''ACME'') None =
              Inl (ValueError (unknown_metric_get_data ''margin''))"
    and p2: "\<exists>bad \<in> set [''Revenue'', ''margin''].
         compare_performance frame_two ''customer'' (Some [''Revenue'', ''margin'']) (Some 1) =
           Inl (ValueError (unknown_metric_compare bad))"
    by auto
  from t2 h5 h6
  have p3: "get_data ci_scorer frame_two ''Revenue'' (Some ''ACME'') None \<noteq>
              Inl (ValueError (unknown_metric_get_data ''revenue''))"
    and p4: "compare_performance frame_two ''customer'' (Some [''revenue'']) None \<noteq>
              Inl (ValueError (unknown_metric_compare ''revenue''))"
    by blast+
  from p1 p2 p3 p4 show ?thesis by blast
qed

text \<open>C9: a call of \<open>compare_performance\<close> with a valid entity type and a list of
  metric names that all pass the validation (their lower-case forms are valid), one of
  them not written in lower case, raises a KeyError for such a name: the validation
  accepts it, and the dict of the three metrics, whose keys are in lower case, is indexed
  with the name as it was given. No result and no unknown-metric error is returned.\<close>

theorem compare_performance_mixed_case_KeyError:
  assumes "lower entity_type \<in> set [''customer'', ''project'']"
    and "\<forall>m \<in> set ms. lower m \<in> set valid_metrics"
    and "\<exists>m \<in> set ms. m \<noteq> lower m"
  shows "validate_metrics ms = None
       \<and> (\<exists>k \<in> set ms. k \<noteq> lower k \<and> lower k \<in> set valid_metrics \<and>
            compare_performance df entity_type (Some ms) top_n = Inl (KeyError k))"
proof -
  have v: "validate_metrics ms = None" using assms(2) by (simp add: validate_metrics_None)
  from assms(3) obtain m where "m \<in> set ms" "m \<noteq> lower m" by blast
  then have "\<exists>m \<in> set ms. m \<notin> set valid_metrics"
    using lower_valid_metric [of m] by auto
  from select_metrics_KeyError [OF this] obtain k where k: "k \<in> set ms" "k \<notin> set valid_metrics"
    and sel: "\<And>a b c acc. select_metrics (entity_metrics a b c) ms acc = Inl (KeyError k)"
    by blast
  from k assms(2) have kl: "k \<noteq> lower k" "lower k \<in> set valid_metrics" by auto
  have sm: "summarise df ms gs = (if gs = [] then Inr [] else Inl (KeyError k))" for gs
    by (rule summarise_KeyError [OF sel])
  have ov: "select_metrics (overall_entry df) ms [] = Inl (KeyError k)"
    by (simp add: overall_entry_def Let_def sel)
  have "compare_performance df entity_type (Some ms) top_n = Inl (KeyError k)"
    using assms(1) by (simp add: compare_performance_def v sm ov Let_def split: option.splits)
  with v k kl show ?thesis by blast
qed

theorem compare_performance_mixed_case_KeyError_witness:
  "validate_metrics [''revenue'', ''Revenue''] = None
   \<and> (\<exists>k \<in> set [''revenue'', ''Revenue'']. k \<noteq> lower k \<and> lower k \<in> set valid_metrics \<and>
        compare_performance frame_two ''Customer'' (Some [''revenue'', ''Revenue'']) (Some 1) =
          Inl (KeyError k))"
proof -
  have h1: "lower ''Customer'' \<in> set [''customer'', ''project'']" by code_simp
  have h2: "\<forall>m \<in> set [''revenue'', ''Revenue'']. lower m \<in> set valid_metrics" by code_simp
  have h3: "\<exists>m \<in> set [''revenue'', ''Revenue'']. m \<noteq> lower m" by code_simp
  show ?thesis by (rule compare_performance_mixed_case_KeyError [OF h1 h2 h3])
qed

text \<open>C4, at a frame with a customer named \<open>OVERALL\<close>: \<open>results['OVERALL'] = ...\<close> then
  assigns to the key of that customer. The customer's own entry (revenue 100) is
  replaced by the figures of the whole frame (150), the entry stays at the customer's
  place, before \<open>Beta\<close>, and is not the last one; with \<open>top_n = 1\<close> no entity is left
  besides it. Grouped by project, the same frame has the synthetic entry last, as every
  frame without an entity of that name has (lemma \<open>compare_performance_listing\<close>).\<close>

theorem compare_performance_entity_named_OVERALL:
  "compare_performance frame_overall ''customer'' (Some [''revenue'']) None =
     Inr [(''OVERALL'', [(''revenue'', (150, 1))]), (''Beta'', [(''revenue'', (50, 1))])]
   \<and> compare_performance frame_overall ''customer'' (Some [''revenue'']) (Some 1) =
     Inr [(''OVERALL'', [(''revenue'', (150, 1))])]
   \<and> compare_performance frame_overall ''project'' (Some [''revenue'']) (Some 1) =
     Inr [(''Alpha'', [(''revenue'', (100, 1))]), (''OVERALL'', [(''revenue'', (150, 1))])]"
  by code_simp

text \<open>C2, as stated, fails: with a customer of the frame and a project that only another
  customer has, \<open>get_data\<close> raises the error of the project filter and returns no empty
  result.\<close>

theorem get_data_other_customers_project_counterexample:
  "get_data ci_scorer frame_two ''revenue'' (Some ''Acme'') (Some ''Orion'') =
     Inl (ValueError (no_close_match ''project'' ''Orion'' ''Alpha''))
   \<and> get_data ci_scorer frame_two ''revenue'' (Some ''Acme'') (Some ''Orion'') \<noteq> Inr ([], [])"
  by code_simp

text \<open>C2, amended: with a customer and a project, the customer is resolved and its rows
  are kept first; the project is resolved second, among the projects of those rows only,
  and its best match \<open>pname\<close> is a project of the resolved customer. When the match is
  accepted the result is computed on the rows that have both the resolved customer and
  the resolved project (the sequential AND), and there is such a row. When no project of
  the resolved customer scores above 80, the call fails with the error of the project
  filter, whose hint is that project; it returns no result, and no empty one.\<close>

theorem get_data_customer_then_project:
  assumes "customer \<noteq> []" and "project \<noteq> []"
    and "filter_customer sc df (Some customer) = Inr (Some cname, df1)"
  shows "rows df1 = filter (\<lambda>r. CustomerName r = cname) (rows df)
       \<and> (\<exists>pname.
             pname \<in> ProjectName ` set (rows df1)
           \<and> (\<forall>r \<in> set (rows df1). sc project (ProjectName r) \<le> sc project pname)
           \<and> filter (\<lambda>r. ProjectName r = pname) (rows df1) =
               filter (\<lambda>r. CustomerName r = cname \<and> ProjectName r = pname) (rows df)
           \<and> filter (\<lambda>r. CustomerName r = cname \<and> ProjectName r = pname) (rows df) \<noteq> []
           \<and> get_data sc df metric (Some customer) (Some project) =
               (if py_round (sc project pname) > 80
                then (if cname = [] \<and> pname = []
                      then overall_metric (lower metric)
                             (df\<lparr>rows := filter (\<lambda>r. CustomerName r = cname \<and> ProjectName r = pname)
                                            (rows df)\<rparr>)
                      else row_metric (lower metric)
                             (df\<lparr>rows := filter (\<lambda>r. CustomerName r = cname \<and> ProjectName r = pname)
                                            (rows df)\<rparr>))
                else Inl (ValueError (no_close_match ''project'' project pname)))
           \<and> ((\<forall>r \<in> set (rows df1). sc project (ProjectName r) \<le> 80) \<longrightarrow>
                get_data sc df metric (Some customer) (Some project) =
                  Inl (ValueError (no_close_match ''project'' project pname))))"
proof -
  from filter_customer_SomeD [OF assms(1,3)]
  have cn: "cname \<in> CustomerName ` set (rows df)"
    and df1: "df1 = df\<lparr>rows := filter (\<lambda>r. CustomerName r = cname) (rows df)\<rparr>"
    by auto
  have r1: "rows df1 = filter (\<lambda>r. CustomerName r = cname) (rows df)" by (simp add: df1)
  from cn have "rows df1 \<noteq> []" by (auto simp: r1 filter_empty_conv)
  then have ne: "unique (map ProjectName (rows df1)) \<noteq> []" by (simp add: unique_Nil_iff)
  from extractOne_nonempty [OF ne, of sc project]
  obtain pname where pn: "pname \<in> set (unique (map ProjectName (rows df1)))"
    and best: "\<forall>c \<in> set (unique (map ProjectName (rows df1))). sc project c \<le> sc project pname"
    and ex: "extractOne sc project (unique (map ProjectName (rows df1))) =
               Some (pname, py_round (sc project pname))"
    by blast
  let ?both = "filter (\<lambda>r. CustomerName r = cname \<and> ProjectName r = pname) (rows df)"
  have pmem: "pname \<in> ProjectName ` set (rows df1)" using pn by (simp add: set_unique)
  have pbest: "\<forall>r \<in> set (rows df1). sc project (ProjectName r) \<le> sc project pname"
    using best by (simp add: set_unique)
  have seq: "filter (\<lambda>r. ProjectName r = pname) (rows df1) = ?both"
    by (simp add: r1 conj_commute)
  have nonempty: "?both \<noteq> []"
  proof
    assume e: "?both = []"
    from pmem obtain r where "r \<in> set (rows df1)" "ProjectName r = pname" by auto
    then have "r \<in> set ?both" by (simp add: r1)
    then have "r \<in> set ([] :: row list)" by (simp only: e)
    then show False by simp
  qed
  have df2: "df1\<lparr>rows := filter (\<lambda>r. ProjectName r = pname) (rows df1)\<rparr> = df\<lparr>rows := ?both\<rparr>"
    using seq by (simp add: df1)
  have fp: "filter_project sc df1 (Some project) =
              (if py_round (sc project pname) > 80
               then Inr (Some pname, df\<lparr>rows := ?both\<rparr>)
               else Inl (ValueError (no_close_match ''project'' project pname)))"
    using assms(2) ex df2 by (simp add: filter_project_def)
  have gd: "get_data sc df metric (Some customer) (Some project) =
               (if py_round (sc project pname) > 80
                then (if cname = [] \<and> pname = []
                      then overall_metric (lower metric) (df\<lparr>rows := ?both\<rparr>)
                      else row_metric (lower metric) (df\<lparr>rows := ?both\<rparr>))
                else Inl (ValueError (no_close_match ''project'' project pname)))"
    using assms(3) fp by (simp add: get_data_def truthy_def Let_def)
  have low: "get_data sc df metric (Some customer) (Some project) =
               Inl (ValueError (no_close_match ''project'' project pname))"
    if "\<forall>r \<in> set (rows df1). sc project (ProjectName r) \<le> 80"
  proof -
    from that pmem have "sc project pname \<le> of_int 80" by auto
    from py_round_le [OF this] show ?thesis using gd by simp
  qed
  from r1 pmem pbest seq nonempty gd low show ?thesis by blast
qed

theorem get_data_customer_then_project_witness:
  "get_data ci_scorer frame_two ''revenue'' (Some ''bolt'') (Some ''orion'') =
     Inr ([50], [Finite 1])
   \<and> get_data ci_scorer frame_two ''revenue'' (Some ''Acme'') (Some ''Orion'') =
       Inl (ValueError (no_close_match ''project'' ''Orion'' ''Alpha''))"
proof -
  let ?bolt = "frame_two\<lparr>rows := filter (\<lambda>r. CustomerName r = ''Bolt'') (rows frame_two)\<rparr>"
  let ?acme = "frame_two\<lparr>rows := filter (\<lambda>r. CustomerName r = ''Acme'') (rows frame_two)\<rparr>"
  have b1: "''bolt'' \<noteq> []" and b2: "''orion'' \<noteq> []" by simp_all
  have b3: "filter_customer ci_scorer frame_two (Some ''bolt'') = Inr (Some ''Bolt'', ?bolt)"
    by code_simp
  have a1: "''Acme'' \<noteq> []" and a2: "''Orion'' \<noteq> []" by simp_all
  have a3: "filter_customer ci_scorer frame_two (Some ''Acme'') = Inr (Some ''Acme'', ?acme)"
    by code_simp
  have rb: "ProjectName ` set (rows ?bolt) = {''Orion''}"
    by (simp add: frame_two_def mk_row_def)
  have ra: "ProjectName ` set (rows ?acme) = {''Alpha''}"
    by (simp add: frame_two_def mk_row_def)
  have sb: "py_round (ci_scorer ''orion'' ''Orion'') = 100" by code_simp
  have sa: "\<forall>r \<in> set (rows ?acme). ci_scorer ''Orion'' (ProjectName r) \<le> 80" by code_simp
  have vb: "row_metric (lower ''revenue'')
              (frame_two\<lparr>rows := filter (\<lambda>r. CustomerName r = ''Bolt'' \<and> ProjectName r = ''Orion'')
                                   (rows frame_two)\<rparr>) = Inr ([50], [Finite 1])"
    by code_simp
  from get_data_customer_then_project [OF b1 b2 b3, of "''revenue''"]
  obtain pb where pb: "pb \<in> ProjectName ` set (rows ?bolt)"
    and gb: "get_data ci_scorer frame_two ''revenue'' (Some ''bolt'') (Some ''orion'') =
               (if py_round (ci_scorer ''orion'' pb) > 80
                then (if ''Bolt'' = [] \<and> pb = []
                      then overall_metric (lower ''revenue'')
                             (frame_two\<lparr>rows := filter (\<lambda>r. CustomerName r = ''Bolt'' \<and> ProjectName r = pb)
                                            (rows frame_two)\<rparr>)
                      else row_metric (lower ''revenue'')
                             (frame_two\<lparr>rows := filter (\<lambda>r. CustomerName r = ''Bolt'' \<and> ProjectName r = pb)
                                            (rows frame_two)\<rparr>))
                else Inl (ValueError (no_close_match ''project'' ''orion'' pb)))"
    by blast
  from pb rb have "pb = ''Orion''" by simp
  with gb sb vb
  have p1: "get_data ci_scorer frame_two ''revenue'' (Some ''bolt'') (Some ''orion'') =
              Inr ([50], [Finite 1])"
    by simp
  from get_data_customer_then_project [OF a1 a2 a3, of "''revenue''"]
  obtain pa where pa: "pa \<in> ProjectName ` set (rows ?acme)"
    and ga: "(\<forall>r \<in> set (rows ?acme). ci_scorer ''Orion'' (ProjectName r) \<le> 80) \<longrightarrow>
                get_data ci_scorer frame_two ''revenue'' (Some ''Acme'') (Some ''Orion'') =
                  Inl (ValueError (no_close_match ''project'' ''Orion'' pa))"
    by blast
  from pa ra have "pa = ''Alpha''" by simp
  with ga sa
  have p2: "get_data ci_scorer frame_two ''revenue'' (Some ''Acme'') (Some ''Orion'') =
              Inl (ValueError (no_close_match ''project'' ''Orion'' ''Alpha''))"
    by blast
  from p1 p2 show ?thesis by simp
qed

text \<open>C6, as stated, fails: on a frame with no row there is no name to match,
  \<open>extractOne\<close> returns \<open>None\<close>, and each of the four sites fails on \<open>best_match[1]\<close>
  with a TypeError, which is neither an accepted match nor the no-close-match error.\<close>

theorem resolution_empty_frame_counterexample:
  "list_customer_projects ci_scorer frame_empty ''Acme'' = Inl TypeError
   \<and> list_project_customers ci_scorer frame_empty ''Alpha'' = Inl TypeError
   \<and> get_data ci_scorer frame_empty ''revenue'' (Some ''Acme'') None = Inl TypeError
   \<and> get_data ci_scorer frame_empty ''revenue'' None (Some ''Alpha'') = Inl TypeError"
  by code_simp

text \<open>C6, amended: on a frame with at least one row, at each of the four sites (the
  customer and the project filter of \<open>get_data\<close>, \<open>list_customer_projects\<close>,
  \<open>list_project_customers\<close>) the candidate is a name of the column that no other name
  outscores, the first such name; the match is accepted if and only if its score, rounded
  to an integer as \<open>extractOne\<close> reports it, is above 80; otherwise the operation fails
  with the no-close-match error, whose message names the query and that candidate, and
  returns no result.\<close>

theorem resolution_threshold:
  assumes "rows df \<noteq> []"
  shows "\<exists>cname pname.
           cname \<in> CustomerName ` set (rows df)
         \<and> (\<forall>r \<in> set (rows df). sc q (CustomerName r) \<le> sc q cname)
         \<and> List.find (\<lambda>c. sc q c = sc q cname) (unique (map CustomerName (rows df))) = Some cname
         \<and> pname \<in> ProjectName ` set (rows df)
         \<and> (\<forall>r \<in> set (rows df). sc q (ProjectName r) \<le> sc q pname)
         \<and> List.find (\<lambda>c. sc q c = sc q pname) (unique (map ProjectName (rows df))) = Some pname
         \<and> list_customer_projects sc df q =
             (if py_round (sc q cname) > 80
              then Inr (sort (unique (map ProjectName
                          (filter (\<lambda>r. CustomerName r = cname) (rows df)))))
              else Inl (ValueError (no_close_match ''customer'' q cname)))
         \<and> list_project_customers sc df q =
             (if py_round (sc q pname) > 80
              then Inr (sort (unique (map CustomerName
                          (filter (\<lambda>r. ProjectName r = pname) (rows df)))))
              else Inl (ValueError (no_close_match ''project'' q pname)))
         \<and> (q \<noteq> [] \<longrightarrow>
              filter_customer sc df (Some q) =
                (if py_round (sc q cname) > 80
                 then Inr (Some cname,
                        df\<lparr>rows := filter (\<lambda>r. CustomerName r = cname) (rows df)\<rparr>)
                 else Inl (ValueError (no_close_match ''customer'' q cname)))
            \<and> filter_project sc df (Some q) =
                (if py_round (sc q pname) > 80
                 then Inr (Some pname,
                        df\<lparr>rows := filter (\<lambda>r. ProjectName r = pname) (rows df)\<rparr>)
                 else Inl (ValueError (no_close_match ''project'' q pname)))
            \<and> (\<not> py_round (sc q cname) > 80 \<longrightarrow>
                  get_data sc df metric (Some q) project =
                    Inl (ValueError (no_close_match ''customer'' q cname)))
            \<and> (\<not> py_round (sc q pname) > 80 \<longrightarrow>
                  (\<forall>df0 customer c. filter_customer sc df0 customer = Inr (c, df) \<longrightarrow>
                     get_data sc df0 metric customer (Some q) =
                       Inl (ValueError (no_close_match ''project'' q pname)))))"
proof -
  let ?cs = "unique (map CustomerName (rows df))"
  let ?ps = "unique (map ProjectName (rows df))"
  from assms have cne: "?cs \<noteq> []" and pne: "?ps \<noteq> []" by (simp_all add: unique_Nil_iff)
  from extractOne_nonempty [OF cne, of sc q]
  obtain cname where c1: "cname \<in> set ?cs" and c2: "\<forall>c \<in> set ?cs. sc q c \<le> sc q cname"
    and c3: "List.find (\<lambda>c. sc q c = sc q cname) ?cs = Some cname"
    and c4: "extractOne sc q ?cs = Some (cname, py_round (sc q cname))" by blast
  from extractOne_nonempty [OF pne, of sc q]
  obtain pname where p1: "pname \<in> set ?ps" and p2: "\<forall>c \<in> set ?ps. sc q c \<le> sc q pname"
    and p3: "List.find (\<lambda>c. sc q c = sc q pname) ?ps = Some pname"
    and p4: "extractOne sc q ?ps = Some (pname, py_round (sc q pname))" by blast
  have cm: "cname \<in> CustomerName ` set (rows df)" using c1 by (simp add: set_unique)
  have cb: "\<forall>r \<in> set (rows df). sc q (CustomerName r) \<le> sc q cname"
    using c2 by (simp add: set_unique)
  have pm: "pname \<in> ProjectName ` set (rows df)" using p1 by (simp add: set_unique)
  have pb: "\<forall>r \<in> set (rows df). sc q (ProjectName r) \<le> sc q pname"
    using p2 by (simp add: set_unique)
  have lc: "list_customer_projects sc df q =
             (if py_round (sc q cname) > 80
              then Inr (sort (unique (map ProjectName
                          (filter (\<lambda>r. CustomerName r = cname) (rows df)))))
              else Inl (ValueError (no_close_match ''customer'' q cname)))"
    using c4 by (simp add: list_customer_projects_def)
  have lp: "list_project_customers sc df q =
             (if py_round (sc q pname) > 80
              then Inr (sort (unique (map CustomerName
                          (filter (\<lambda>r. ProjectName r = pname) (rows df)))))
              else Inl (ValueError (no_close_match ''project'' q pname)))"
    using p4 by (simp add: list_project_customers_def)
  have fc: "filter_customer sc df (Some q) =
                (if py_round (sc q cname) > 80
                 then Inr (Some cname,
                        df\<lparr>rows := filter (\<lambda>r. CustomerName r = cname) (rows df)\<rparr>)
                 else Inl (ValueError (no_close_match ''customer'' q cname)))" if "q \<noteq> []"
    using c4 that by (simp add: filter_customer_def)
  have fp: "filter_project sc df (Some q) =
                (if py_round (sc q pname) > 80
                 then Inr (Some pname,
                        df\<lparr>rows := filter (\<lambda>r. ProjectName r = pname) (rows df)\<rparr>)
                 else Inl (ValueError (no_close_match ''project'' q pname)))" if "q \<noteq> []"
    using p4 that by (simp add: filter_project_def)
  have gc: "get_data sc df metric (Some q) project =
              Inl (ValueError (no_close_match ''customer'' q cname))"
    if "q \<noteq> []" "\<not> py_round (sc q cname) > 80"
    using fc [OF that(1)] that(2) by (simp add: get_data_def)
  have gp: "get_data sc df0 metric customer (Some q) =
              Inl (ValueError (no_close_match ''project'' q pname))"
    if "q \<noteq> []" "\<not> py_round (sc q pname) > 80" "filter_customer sc df0 customer = Inr (c, df)"
    for df0 customer c
    using fp [OF that(1)] that(2,3) by (simp add: get_data_def)
  show ?thesis
    apply (rule exI [of _ cname], rule exI [of _ pname])
    using cm cb c3 pm pb p3 lc lp fc fp gc gp by blast
qed

theorem resolution_threshold_witness:
  "list_customer_projects ci_scorer frame_two ''bolt'' = Inr [''Orion'']
   \<and> filter_customer ci_scorer frame_two (Some ''bolt'') =
       Inr (Some ''Bolt'',
            frame_two\<lparr>rows := filter (\<lambda>r. CustomerName r = ''Bolt'') (rows frame_two)\<rparr>)
   \<and> prefix_scorer ''Orio'' ''Orion'' = 80
   \<and> list_project_customers prefix_scorer frame_two ''Orio'' =
       Inl (ValueError (no_close_match ''project'' ''Orio'' ''Orion''))
   \<and> get_data prefix_scorer frame_two ''revenue'' None (Some ''Orio'') =
       Inl (ValueError (no_close_match ''project'' ''Orio'' ''Orion''))"
proof -
  have ne: "rows frame_two \<noteq> []" by (simp add: frame_two_def)
  have bolt: "mk_row ''Bolt'' ''Orion'' 50 10 5 \<in> set (rows frame_two)"
    by (simp add: frame_two_def)
  have cn: "c \<in> CustomerName ` set (rows frame_two) \<Longrightarrow> c = ''Acme'' \<or> c = ''Bolt''" for c
    by (auto simp: frame_two_def mk_row_def)
  have pn: "p \<in> ProjectName ` set (rows frame_two) \<Longrightarrow> p = ''Alpha'' \<or> p = ''Orion''" for p
    by (auto simp: frame_two_def mk_row_def)
  have s1: "\<not> ci_scorer ''bolt'' ''Bolt'' \<le> ci_scorer ''bolt'' ''Acme''"
    by code_simp
  have s2: "\<not> prefix_scorer ''Orio'' ''Orion'' \<le> prefix_scorer ''Orio'' ''Alpha''"
    by code_simp
  have r1: "py_round (ci_scorer ''bolt'' ''Bolt'') > 80" by code_simp
  have r2: "\<not> py_round (prefix_scorer ''Orio'' ''Orion'') > 80" by code_simp
  have v: "prefix_scorer ''Orio'' ''Orion'' = 80" by code_simp
  have so: "sort (unique (map ProjectName
              (filter (\<lambda>r. CustomerName r = ''Bolt'') (rows frame_two)))) = [''Orion'']"
    by code_simp
  have f0: "filter_customer prefix_scorer frame_two None = Inr (None, frame_two)"
    by (simp add: filter_customer_def)
  have q1: "''bolt'' \<noteq> []" and q2: "''Orio'' \<noteq> []" by simp_all
  have w12: "list_customer_projects ci_scorer frame_two ''bolt'' = Inr [''Orion'']
       \<and> filter_customer ci_scorer frame_two (Some ''bolt'') =
           Inr (Some ''Bolt'',
                frame_two\<lparr>rows := filter (\<lambda>r. CustomerName r = ''Bolt'') (rows frame_two)\<rparr>)"
    using resolution_threshold [OF ne, of ci_scorer "''bolt''" "''revenue''" None]
  proof (elim exE conjE)
    fix cname pname
    assume c: "cname \<in> CustomerName ` set (rows frame_two)"
      and cb: "\<forall>r \<in> set (rows frame_two).
                 ci_scorer ''bolt'' (CustomerName r) \<le> ci_scorer ''bolt'' cname"
      and lc: "list_customer_projects ci_scorer frame_two ''bolt'' =
             (if py_round (ci_scorer ''bolt'' cname) > 80
              then Inr (sort (unique (map ProjectName
                          (filter (\<lambda>r. CustomerName r = cname) (rows frame_two)))))
              else Inl (ValueError (no_close_match ''customer'' ''bolt'' cname)))"
      and imp: "''bolt'' \<noteq> [] \<longrightarrow>
              filter_customer ci_scorer frame_two (Some ''bolt'') =
                (if py_round (ci_scorer ''bolt'' cname) > 80
                 then Inr (Some cname,
                        frame_two\<lparr>rows := filter (\<lambda>r. CustomerName r = cname) (rows frame_two)\<rparr>)
                 else Inl (ValueError (no_close_match ''customer'' ''bolt'' cname)))
            \<and> filter_project ci_scorer frame_two (Some ''bolt'') =
                (if py_round (ci_scorer ''bolt'' pname) > 80
                 then Inr (Some pname,
                        frame_two\<lparr>rows := filter (\<lambda>r. ProjectName r = pname) (rows frame_two)\<rparr>)
                 else Inl (ValueError (no_close_match ''project'' ''bolt'' pname)))
            \<and> (\<not> py_round (ci_scorer ''bolt'' cname) > 80 \<longrightarrow>
                  get_data ci_scorer frame_two ''revenue'' (Some ''bolt'') None =
                    Inl (ValueError (no_close_match ''customer'' ''bolt'' cname)))
            \<and> (\<not> py_round (ci_scorer ''bolt'' pname) > 80 \<longrightarrow>
                  (\<forall>df0 customer c. filter_customer ci_scorer df0 customer = Inr (c, frame_two) \<longrightarrow>
                     get_data ci_scorer df0 ''revenue'' customer (Some ''bolt'') =
                       Inl (ValueError (no_close_match ''project'' ''bolt'' pname))))"
    from cb bolt have "ci_scorer ''bolt'' (CustomerName (mk_row ''Bolt'' ''Orion'' 50 10 5))
                         \<le> ci_scorer ''bolt'' cname" by (rule bspec)
    then have "ci_scorer ''bolt'' ''Bolt'' \<le> ci_scorer ''bolt'' cname"
      by (simp add: mk_row_def)
    with cn [OF c] s1 have cname: "cname = ''Bolt''" by auto
    note fc = imp [THEN mp, OF q1, THEN conjunct1]
    from lc fc r1 so show ?thesis by (simp add: cname)
  qed
  have orion: "mk_row ''Bolt'' ''Orion'' 50 10 5 \<in> set (rows frame_two)" by (rule bolt)
  have w34: "list_project_customers prefix_scorer frame_two ''Orio'' =
         Inl (ValueError (no_close_match ''project'' ''Orio'' ''Orion''))
       \<and> get_data prefix_scorer frame_two ''revenue'' None (Some ''Orio'') =
           Inl (ValueError (no_close_match ''project'' ''Orio'' ''Orion''))"
    using resolution_threshold [OF ne, of prefix_scorer "''Orio''" "''revenue''" None]
  proof (elim exE conjE)
    fix cname pname
    assume p: "pname \<in> ProjectName ` set (rows frame_two)"
      and pb: "\<forall>r \<in> set (rows frame_two).
                 prefix_scorer ''Orio'' (ProjectName r) \<le> prefix_scorer ''Orio'' pname"
      and lp: "list_project_customers prefix_scorer frame_two ''Orio'' =
             (if py_round (prefix_scorer ''Orio'' pname) > 80
              then Inr (sort (unique (map CustomerName
                          (filter (\<lambda>r. ProjectName r = pname) (rows frame_two)))))
              else Inl (ValueError (no_close_match ''project'' ''Orio'' pname)))"
      and imp: "''Orio'' \<noteq> [] \<longrightarrow>
              filter_customer prefix_scorer frame_two (Some ''Orio'') =
                (if py_round (prefix_scorer ''Orio'' cname) > 80
                 then Inr (Some cname,
                        frame_two\<lparr>rows := filter (\<lambda>r. CustomerName r = cname) (rows frame_two)\<rparr>)
                 else Inl (ValueError (no_close_match ''customer'' ''Orio'' cname)))
            \<and> filter_project prefix_scorer frame_two (Some ''Orio'') =
                (if py_round (prefix_scorer ''Orio'' pname) > 80
                 then Inr (Some pname,
                        frame_two\<lparr>rows := filter (\<lambda>r. ProjectName r = pname) (rows frame_two)\<rparr>)
                 else Inl (ValueError (no_close_match ''project'' ''Orio'' pname)))
            \<and> (\<not> py_round (prefix_scorer ''Orio'' cname) > 80 \<longrightarrow>
                  get_data prefix_scorer frame_two ''revenue'' (Some ''Orio'') None =
                    Inl (ValueError (no_close_match ''customer'' ''Orio'' cname)))
            \<and> (\<not> py_round (prefix_scorer ''Orio'' pname) > 80 \<longrightarrow>
                  (\<forall>df0 customer c. filter_customer prefix_scorer df0 customer = Inr (c, frame_two) \<longrightarrow>
                     get_data prefix_scorer df0 ''revenue'' customer (Some ''Orio'') =
                       Inl (ValueError (no_close_match ''project'' ''Orio'' pname))))"
    from pb orion have "prefix_scorer ''Orio'' (ProjectName (mk_row ''Bolt'' ''Orion'' 50 10 5))
                         \<le> prefix_scorer ''Orio'' pname" by (rule bspec)
    then have "prefix_scorer ''Orio'' ''Orion'' \<le> prefix_scorer ''Orio'' pname"
      by (simp add: mk_row_def)
    with pn [OF p] s2 have pname: "pname = ''Orion''" by auto
    note gp = imp [THEN mp, OF q2, THEN conjunct2, THEN conjunct2, THEN conjunct2]
    from gp r2 f0 have "get_data prefix_scorer frame_two ''revenue'' None (Some ''Orio'') =
           Inl (ValueError (no_close_match ''project'' ''Orio'' ''Orion''))"
      unfolding pname by blast
    moreover from lp r2 have "list_project_customers prefix_scorer frame_two ''Orio'' =
         Inl (ValueError (no_close_match ''project'' ''Orio'' ''Orion''))"
      unfolding pname by simp
    ultimately show ?thesis by simp
  qed
  from w12 w34 v show ?thesis by simp
qed

text \<open>C8, as stated, fails: the query \<open>Acme\<close> is a customer name of the frame and the
  scorer gives it 100 against itself, yet the name returned is \<open>ACME\<close>, an earlier name
  that also scores 100, and \<open>get_data\<close> returns the rows of \<open>ACME\<close>.\<close>

theorem exact_name_case_variant_counterexample:
  "''Acme'' \<in> set (unique (map CustomerName (rows frame_variants)))
   \<and> ci_scorer ''Acme'' ''Acme'' = 100
   \<and> extractOne ci_scorer ''Acme'' (unique (map CustomerName (rows frame_variants))) =
       Some (''ACME'', 100)
   \<and> get_data ci_scorer frame_variants ''revenue'' (Some ''Acme'') None = Inr ([100], [Finite 1])"
  by code_simp

text \<open>C8, amended: when the query is one of the names, the scorer gives 100 to the query
  against itself and no more than 100 to any name, the resolution returns the confidence
  100 and the first name, in the order of the distinct names, whose score before rounding
  is 100; this is the query itself when no other name has that score (a name whose score
  is only rounded to 100 does not take its place). The confidence passes the threshold
  of 80: the customer and the project filter of \<open>get_data\<close> accept the name.\<close>

theorem exact_name_resolution:
  assumes "q \<in> set names" and "sc q q = 100" and "\<forall>c \<in> set names. sc q c \<le> 100"
  shows "\<exists>name. extractOne sc q names = Some (name, 100)
           \<and> List.find (\<lambda>c. sc q c = 100) names = Some name
           \<and> ((\<forall>c \<in> set names. sc q c = 100 \<longrightarrow> c = q) \<longrightarrow> name = q)
           \<and> (q \<noteq> [] \<and> names = unique (map CustomerName (rows df)) \<longrightarrow>
                filter_customer sc df (Some q) =
                  Inr (Some name, df\<lparr>rows := filter (\<lambda>r. CustomerName r = name) (rows df)\<rparr>))
           \<and> (q \<noteq> [] \<and> names = unique (map ProjectName (rows df)) \<longrightarrow>
                filter_project sc df (Some q) =
                  Inr (Some name, df\<lparr>rows := filter (\<lambda>r. ProjectName r = name) (rows df)\<rparr>))"
proof -
  from assms(1) have "names \<noteq> []" by auto
  from extractOne_nonempty [OF this, of sc q]
  obtain name where n: "name \<in> set names"
    and best: "\<forall>c \<in> set names. sc q c \<le> sc q name"
    and first: "List.find (\<lambda>c. sc q c = sc q name) names = Some name"
    and ex: "extractOne sc q names = Some (name, py_round (sc q name))" by blast
  have "sc q q \<le> sc q name" using best assms(1) by blast
  moreover have "sc q name \<le> 100" using assms(3) n by blast
  ultimately have s: "sc q name = 100" using assms(2) by simp
  have r: "py_round (100 :: rat) = 100" using py_round_of_int [of 100] by simp
  have ex100: "extractOne sc q names = Some (name, 100)" using ex s r by simp
  have fnd: "List.find (\<lambda>c. sc q c = 100) names = Some name"
    using first s by simp
  have uniq: "(\<forall>c \<in> set names. sc q c = 100 \<longrightarrow> c = q) \<longrightarrow> name = q"
    using n s by blast
  have fc: "q \<noteq> [] \<and> names = unique (map CustomerName (rows df)) \<longrightarrow>
              filter_customer sc df (Some q) =
                Inr (Some name, df\<lparr>rows := filter (\<lambda>r. CustomerName r = name) (rows df)\<rparr>)"
    using ex100 by (auto simp: filter_customer_def)
  have fp: "q \<noteq> [] \<and> names = unique (map ProjectName (rows df)) \<longrightarrow>
              filter_project sc df (Some q) =
                Inr (Some name, df\<lparr>rows := filter (\<lambda>r. ProjectName r = name) (rows df)\<rparr>)"
    using ex100 by (auto simp: filter_project_def)
  from ex100 fnd uniq fc fp show ?thesis by blast
qed

theorem exact_name_resolution_witness:
  "(\<exists>name. extractOne ci_scorer ''Bolt'' (unique (map CustomerName (rows frame_two))) =
             Some (name, 100)
     \<and> name = ''Bolt''
     \<and> filter_customer ci_scorer frame_two (Some ''Bolt'') =
         Inr (Some name,
              frame_two\<lparr>rows := filter (\<lambda>r. CustomerName r = name) (rows frame_two)\<rparr>))
   \<and> py_round (199 / 2) = 100
   \<and> (\<exists>name. extractOne (\<lambda>a b. if a = b then 100 else 199 / 2) ''Acme'' [''Acmes'', ''Acme''] =
                Some (name, 100)
        \<and> name = ''Acme'')"
proof -
  let ?names = "unique (map CustomerName (rows frame_two))"
  have h1: "''Bolt'' \<in> set ?names" by code_simp
  have h2: "ci_scorer ''Bolt'' ''Bolt'' = 100" by code_simp
  have h3: "\<forall>c \<in> set ?names. ci_scorer ''Bolt'' c \<le> 100" by code_simp
  have h4: "\<forall>c \<in> set ?names. ci_scorer ''Bolt'' c = 100 \<longrightarrow> c = ''Bolt''" by code_simp
  from exact_name_resolution [of "''Bolt''" ?names ci_scorer frame_two, OF h1 h2 h3] h4
  have w1: "\<exists>name. extractOne ci_scorer ''Bolt'' ?names = Some (name, 100)
     \<and> name = ''Bolt''
     \<and> filter_customer ci_scorer frame_two (Some ''Bolt'') =
         Inr (Some name,
              frame_two\<lparr>rows := filter (\<lambda>r. CustomerName r = name) (rows frame_two)\<rparr>)"
    by auto
  let ?sc = "\<lambda>a b :: string. if a = b then 100 else (199 / 2 :: rat)"
  have g1: "''Acme'' \<in> set [''Acmes'', ''Acme'']" by simp
  have g2: "?sc ''Acme'' ''Acme'' = 100" by simp
  have g3: "\<forall>c \<in> set [''Acmes'', ''Acme'']. ?sc ''Acme'' c \<le> 100" by simp
  have g4: "\<forall>c \<in> set [''Acmes'', ''Acme'']. ?sc ''Acme'' c = 100 \<longrightarrow> c = ''Acme''" by simp
  from exact_name_resolution [of "''Acme''" "[''Acmes'', ''Acme'']" ?sc frame_two, OF g1 g2 g3] g4
  have w2: "\<exists>name. extractOne ?sc ''Acme'' [''Acmes'', ''Acme''] = Some (name, 100)
              \<and> name = ''Acme''"
    by auto
  have w3: "py_round (199 / 2) = 100" by code_simp
  from w1 w2 w3 show ?thesis by simp
qed

text \<open>C5, as stated, fails on \<open>float64\<close> columns: for the rows (Revenue 0.1, COGS 0.1) and
  (Revenue 0.2, COGS 0.1) the per-row gross margins 0 and 0.1 sum to 0.1, and the
  unfiltered \<open>get_data\<close> returns 0.10000000000000003, the rounded sum 0.1 + 0.2 minus
  0.2.\<close>

theorem float_rounding_counterexample:
  "round_f64 (1 / 10) = 3602879701896397 / 36028797018963968
   \<and> round_f64 (1 / 5) = 3602879701896397 / 18014398509481984
   \<and> row_metric_with f64_arith ''gross_margin'' frame_tenths =
       Inr ([0, 3602879701896397 / 36028797018963968], [Finite 0, Finite (1 / 2)])
   \<and> col_sum f64_arith [0, 3602879701896397 / 36028797018963968] =
       3602879701896397 / 36028797018963968
   \<and> get_data_with f64_arith ci_scorer frame_tenths ''gross_margin'' None None =
       Inr ([1801439850948199 / 18014398509481984],
            [Finite (3002399751580331 / 9007199254740992)])
   \<and> (3602879701896397 / 36028797018963968 :: rat) \<noteq> 1801439850948199 / 18014398509481984"
  by code_simp

text \<open>C5, amended: for the three metrics and every frame (the ledger or any selection of its
  rows) on which the sums and differences of the two computations are exact in the
  arithmetic of the columns, the per-row values are \<open>Revenue\<close>, \<open>Revenue - COGS\<close> and
  \<open>Revenue - COGS - OPEX\<close>, their sum is the same expression on the sums of the columns,
  and the unfiltered \<open>get_data\<close> returns that sum as its one value. A frame of whole
  amounts in \<open>float64\<close> is such a frame.\<close>

theorem aggregate_consistency:
  assumes "row_metric_with ar (lower metric) df = Inr (vs, ps)"
    and "exact_on ar df"
  shows "vs = map (\<lambda>r. if lower metric = ''revenue'' then Revenue r
                        else if lower metric = ''gross_margin'' then Revenue r - COGS r
                        else Revenue r - COGS r - OPEX r) (rows df)
       \<and> col_sum ar vs =
           (if lower metric = ''revenue'' then sum_list (map Revenue (rows df))
            else if lower metric = ''gross_margin''
              then sum_list (map Revenue (rows df)) - sum_list (map COGS (rows df))
            else sum_list (map Revenue (rows df)) - sum_list (map COGS (rows df))
                 - sum_list (map OPEX (rows df)))
       \<and> (\<exists>pct. get_data_with ar sc df metric None None = Inr ([col_sum ar vs], pct))"
proof -
  let ?m = "lower metric"
  let ?R = "map Revenue (rows df)"
  let ?C = "map COGS (rows df)"
  let ?X = "map OPEX (rows df)"
  from assms(2) have tR: "col_sum ar ?R = sum_list ?R" and tC: "col_sum ar ?C = sum_list ?C"
    and tG: "col_sum ar (map (\<lambda>r. Revenue r - COGS r) (rows df)) =
               sum_list (map (\<lambda>r. Revenue r - COGS r) (rows df))"
    and rG: "\<forall>r \<in> set (rows df). col_sub ar (Revenue r) (COGS r) = Revenue r - COGS r"
    and mG: "col_sub ar (sum_list ?R) (sum_list ?C) = sum_list ?R - sum_list ?C"
    by (simp_all add: exact_on_def Let_def list_all_iff)
  consider (gm) "?m = ''gross_margin''" | (rev) "?m = ''revenue''"
    | (eb) "?m = ''ebitda''" "has_OPEX df"
    using assms(1) by (auto simp: row_metric_with_def split: if_splits)
  then show ?thesis
  proof cases
    case gm
    with assms(1) have "vs = map (\<lambda>r. col_sub ar (Revenue r) (COGS r)) (rows df)"
      by (simp add: row_metric_with_def Let_def)
    with rG have vs: "vs = map (\<lambda>r. Revenue r - COGS r) (rows df)" by simp
    have tot: "col_sum ar vs = sum_list ?R - sum_list ?C"
      by (simp add: vs tG sum_list_minus)
    have "overall_metric_with ar ?m df =
            Inr ([sum_list ?R - sum_list ?C],
                 [Finite (if sum_list ?R > 0
                          then col_div ar (sum_list ?R - sum_list ?C) (sum_list ?R) else 0)])"
      using gm by (simp add: overall_metric_with_def Let_def tR tC mG)
    then show ?thesis
      using gm by (simp add: vs [symmetric] tot get_data_with_unfiltered)
  next
    case rev
    with assms(1) have vs: "vs = ?R"
      by (simp add: row_metric_with_def)
    show ?thesis
      using rev by (simp add: vs tR get_data_with_unfiltered overall_metric_with_def Let_def)
  next
    case eb
    from assms(2) eb(2) have tX: "col_sum ar ?X = sum_list ?X"
      and tE: "col_sum ar (map (\<lambda>r. Revenue r - COGS r - OPEX r) (rows df)) =
                 sum_list (map (\<lambda>r. Revenue r - COGS r - OPEX r) (rows df))"
      and rE: "\<forall>r \<in> set (rows df).
                 col_sub ar (Revenue r - COGS r) (OPEX r) = Revenue r - COGS r - OPEX r"
      and mE: "col_sub ar (sum_list ?R - sum_list ?C) (sum_list ?X) =
                 sum_list ?R - sum_list ?C - sum_list ?X"
      by (simp_all add: exact_on_def Let_def list_all_iff)
    from eb assms(1)
    have "vs = map (\<lambda>r. col_sub ar (col_sub ar (Revenue r) (COGS r)) (OPEX r)) (rows df)"
      by (simp add: row_metric_with_def Let_def)
    with rG rE have vs: "vs = map (\<lambda>r. Revenue r - COGS r - OPEX r) (rows df)" by simp
    have tot: "col_sum ar vs = sum_list ?R - sum_list ?C - sum_list ?X"
      by (simp add: vs tE sum_list_minus)
    have "overall_metric_with ar ?m df =
            Inr ([sum_list ?R - sum_list ?C - sum_list ?X],
                 [Finite (if sum_list ?R > 0
                          then col_div ar (sum_list ?R - sum_list ?C - sum_list ?X) (sum_list ?R)
                          else 0)])"
      using eb by (simp add: overall_metric_with_def Let_def tR tC tX mG mE)
    then show ?thesis
      using eb by (simp add: vs [symmetric] tot get_data_with_unfiltered)
  qed
qed

theorem aggregate_consistency_witness:
  "[50, 35, - 4] = map (\<lambda>r. if lower ''EBITDA'' = ''revenue'' then Revenue r
                        else if lower ''EBITDA'' = ''gross_margin'' then Revenue r - COGS r
                        else Revenue r - COGS r - OPEX r) (rows frame_two)
   \<and> col_sum f64_arith [50, 35, - 4] =
           (if lower ''EBITDA'' = ''revenue'' then sum_list (map Revenue (rows frame_two))
            else if lower ''EBITDA'' = ''gross_margin''
              then sum_list (map Revenue (rows frame_two)) - sum_list (map COGS (rows frame_two))
            else sum_list (map Revenue (rows frame_two)) - sum_list (map COGS (rows frame_two))
                 - sum_list (map OPEX (rows frame_two)))
   \<and> (\<exists>pct. get_data_with f64_arith ci_scorer frame_two ''EBITDA'' None None =
              Inr ([col_sum f64_arith [50, 35, - 4]], pct))"
proof -
  have h1: "row_metric_with f64_arith (lower ''EBITDA'') frame_two =
             Inr ([50, 35, - 4],
                  [Finite (round_f64 (1 / 2)), Finite (round_f64 (7 / 10)), NegInf])"
    by code_simp
  have h2: "exact_on f64_arith frame_two" by code_simp
  show ?thesis by (rule aggregate_consistency [OF h1 h2])
qed

end
